theory Spec2Isabelle
  imports Main "HOL-Library.Word"
begin

unbundle bit_operations_syntax

section \<open>Data model of \<open>pkg/smokescreen/smokescreen.go\<close>\<close>

subsection \<open>Addresses and rule ranges\<close>

text \<open>
  Go's \<open>net.IP\<close> is a byte slice, \<open>net.IPNet\<close> a pair of an address and a mask,
  \<open>net.TCPAddr\<close> a struct of IP, Port and Zone, and \<open>net.IPAddr\<close> (an element of a
  resolver's answer) a struct of IP and Zone. Ports are Go \<open>int\<close>s.
\<close>

type_synonym IP = "8 word list"

record IPNet =
  NetIP :: IP
  Mask :: "8 word list"

record TCPAddr =
  IP :: IP
  Port :: int
  Zone :: string

record IPAddr =
  AddrIP :: IP
  AddrZone :: string

text \<open>
  Modelled from the spec: \<open>RuleRange\<close> is declared outside \<open>smokescreen.go\<close>. The spec
  (section 3) gives a rule range as a CIDR with an optional port where port zero matches
  any port; the source reads the fields \<open>rng.Net\<close> and \<open>rng.Port\<close>.
\<close>

record RuleRange =
  Net :: IPNet
  RulePort :: int

subsection \<open>The classification enum\<close>

datatype ipType =
    ipAllowDefault
  | ipAllowUserConfigured
  | ipDenyNotGlobalUnicast
  | ipDenyPrivateRange
  | ipDenyUserConfigured

fun IsAllowed :: "ipType \<Rightarrow> bool" where
  "IsAllowed t = (t = ipAllowDefault \<or> t = ipAllowUserConfigured)"

text \<open>
  \<open>String\<close> and \<open>statsdString\<close> panic in Go on an \<open>ipType\<close> outside the five
  constants. The datatype has exactly the five constants, which are the only values
  \<open>classifyAddr\<close> produces, so both functions are total here.
\<close>

fun String :: "ipType \<Rightarrow> string" where
  "String ipAllowDefault = ''Allow: Default''"
| "String ipAllowUserConfigured = ''Allow: User Configured''"
| "String ipDenyNotGlobalUnicast = ''Deny: Not Global Unicast''"
| "String ipDenyPrivateRange = ''Deny: Private Range''"
| "String ipDenyUserConfigured = ''Deny: User Configured''"

fun statsdString :: "ipType \<Rightarrow> string" where
  "statsdString ipAllowDefault = ''resolver.allow.default''"
| "statsdString ipAllowUserConfigured = ''resolver.allow.user_configured''"
| "statsdString ipDenyNotGlobalUnicast = ''resolver.deny.not_global_unicast''"
| "statsdString ipDenyPrivateRange = ''resolver.deny.private_range''"
| "statsdString ipDenyUserConfigured = ''resolver.deny.user_configured''"

subsection \<open>What the file links against\<close>

text \<open>
  \<open>smokescreen.go\<close> calls into Go's standard library (\<open>net\<close>, \<open>net/http\<close>,
  \<open>fmt\<close>) and reads two package-level variables that are declared in other files of
  the package (\<open>PrivateRuleRanges\<close>, \<open>hostExtractRE\<close>). None of them is defined in
  this file, so the model takes them as a parameter: every function below that reaches
  one of them receives a \<open>linkage\<close>, and every theorem holds for all of them.

  \<^item> \<open>IsGlobalUnicast\<close>, \<open>IsLoopback\<close>: the methods of \<open>net.IP\<close>;
  \<^item> \<open>Contains\<close>: \<open>(*net.IPNet).Contains\<close>;
  \<^item> \<open>IPString\<close>: \<open>net.IP.String\<close>, as \<open>%s\<close> prints an address;
  \<^item> \<open>Quote\<close>: what \<open>%q\<close> prints for a string;
  \<^item> \<open>SplitHostPort\<close>: \<open>net.SplitHostPort\<close>, an error or the pair (host, port);
  \<^item> \<open>TCPAddrString\<close>: \<open>(*net.TCPAddr).String\<close>, defined on the nil pointer too;
  \<^item> \<open>StatusText\<close>: \<open>http.StatusText\<close>;
  \<^item> \<open>DialTimeout\<close>: \<open>net.DialTimeout(network, address, timeout)\<close>, an error or the
    connection it opened;
  \<^item> \<open>PrivateRuleRanges\<close>: the built-in table of private ranges;
  \<^item> \<open>hostExtractRE\<close>: \<open>hostExtractRE.FindStringSubmatch\<close>, \<open>None\<close> for Go's \<open>nil\<close>
    (no match), otherwise the match followed by its submatches.
\<close>

text \<open>
  A Go \<open>error\<close> with its message. The file tells two kinds of error from all others by
  their type: its own \<open>denyError\<close>, and the missing-role error of the role extractor.
\<close>

datatype error =
    denyError string
  | missingRoleError string
  | otherError string

text \<open>
  A connection is what \<open>net.DialTimeout\<close> opened (network and address), or one of the
  two wrappers \<open>dialContext\<close> puts around it: the tracker's instrumented connection
  (idle timeout, trace id, role, outbound host, proxy type) or \<open>NewTimeoutConn\<close>.
\<close>

datatype conn =
    NetConn string string
  | InstrumentedConn conn int string string string string
  | TimeoutConn conn int

record linkage =
  IsGlobalUnicast :: "IP \<Rightarrow> bool"
  IsLoopback :: "IP \<Rightarrow> bool"
  Contains :: "IPNet \<Rightarrow> IP \<Rightarrow> bool"
  IPString :: "IP \<Rightarrow> string"
  Quote :: "string \<Rightarrow> string"
  SplitHostPort :: "string \<Rightarrow> error + (string \<times> string)"
  TCPAddrString :: "TCPAddr option \<Rightarrow> string"
  StatusText :: "int \<Rightarrow> string"
  DialTimeout :: "string \<Rightarrow> string \<Rightarrow> int \<Rightarrow> error + conn"
  PrivateRuleRanges :: "RuleRange list"
  hostExtractRE :: "string \<Rightarrow> string list option"

subsection \<open>Requests, ACL decisions and the configuration\<close>

text \<open>
  Of \<open>http.Request\<close> the file reads \<open>Host\<close>, \<open>URL.Scheme\<close>, \<open>ProtoMajor\<close>,
  \<open>ProtoMinor\<close>, \<open>Header\<close>, \<open>RemoteAddr\<close> and \<open>RequestURI\<close>. A header is Go's
  \<open>map[string][]string\<close>; header names stand for their canonical forms.
\<close>

type_synonym Header = "string \<Rightarrow> string list option"

record Request =
  Host :: string
  URLScheme :: string
  ReqProtoMajor :: int
  ReqProtoMinor :: int
  ReqHeader :: Header
  RemoteAddr :: string
  RequestURI :: string

text \<open>Of \<open>http.Response\<close>, the fields a synthesized rejection sets.\<close>

record Response =
  StatusCode :: int
  Status :: string
  ProtoMajor :: int
  ProtoMinor :: int
  Header :: Header
  Body :: string
  ContentLength :: int


definition HeaderAdd :: "Header \<Rightarrow> string \<Rightarrow> string \<Rightarrow> Header" where
  "HeaderAdd h k v = h(k \<mapsto> (case h k of Some vs \<Rightarrow> vs | None \<Rightarrow> []) @ [v])"

definition HeaderSet :: "Header \<Rightarrow> string \<Rightarrow> string \<Rightarrow> Header" where
  "HeaderSet h k v = h(k \<mapsto> [v])"


text \<open>
  Modelled from the spec: package \<open>acl/v1\<close> lies outside \<open>smokescreen.go\<close>. The spec
  (section 4.4) gives the evaluator's answer as a record of Result, Reason, Project and Default
  with Result one of Allow, AllowAndReport and Deny. The Go type of Result is an integer
  enum and \<open>checkACLsForRequest\<close> has a \<open>default\<close> branch for any other value, which
  is \<open>UnknownResult\<close> here.
\<close>

datatype DecisionResult = Allow | AllowAndReport | Deny | UnknownResult int

record Decision =
  Reason :: string
  Default :: bool
  Result :: DecisionResult
  Project :: string

text \<open>The struct \<open>aclDecision\<close> of the source; \<open>resolvedAddr\<close> is a nullable pointer.\<close>

record aclDecision =
  reason :: string
  role :: string
  project :: string
  outboundHost :: string
  resolvedAddr :: "TCPAddr option"
  allow :: bool
  enforceWouldDeny :: bool

text \<open>
  Modelled from the spec: \<open>Config\<close> is declared outside \<open>smokescreen.go\<close>. The record
  holds the fields of section 3 of the spec that this file reads, with the types their uses
  in the source require. \<open>EgressACL\<close> and \<open>RoleFromRequest\<close> are nullable (\<open>None\<close> is
  Go's \<open>nil\<close>); \<open>Decide\<close> returns a decision record together with an optional error,
  as the source reads the record's \<open>Reason\<close> also when the error is set. The resolver's
  two operations are the ones of section 6 of the spec. \<open>StatsdClient\<close> and \<open>Log\<close> are
  not fields here: their calls are recorded in the trace below.
\<close>

record Resolver =
  LookupPort :: "string \<Rightarrow> string \<Rightarrow> error + int"
  LookupIPAddr :: "string \<Rightarrow> error + IPAddr list"

record Config =
  AllowRanges :: "RuleRange list"
  DenyRanges :: "RuleRange list"
  Resolver :: Resolver
  ConnectTimeout :: int
  IdleTimeout :: int
  AllowMissingRole :: bool
  AdditionalErrorMessageOnDeny :: string
  EgressACL :: "(string \<Rightarrow> string \<Rightarrow> Decision \<times> error option) option"
  RoleFromRequest :: "(Request \<Rightarrow> error + string) option"

text \<open>
  Modelled from the spec: \<open>MissingRoleError\<close> and \<open>IsMissingRoleError\<close> are declared
  outside \<open>smokescreen.go\<close>. The spec (section 4.3) speaks of a sentinel missing-role
  error that the evaluator tells apart from all other errors: the constructor
  \<open>missingRoleError\<close> of \<open>error\<close>. \<open>denyError\<close> is the struct of the source that wraps
  an error and answers its message.
\<close>

definition MissingRoleError :: "string \<Rightarrow> error" where
  "MissingRoleError s = missingRoleError s"

fun IsMissingRoleError :: "error \<Rightarrow> bool" where
  "IsMissingRoleError (missingRoleError s) = True"
| "IsMissingRoleError e = False"

fun Error :: "error \<Rightarrow> string" where
  "Error (denyError s) = s"
| "Error (missingRoleError s) = s"
| "Error (otherError s) = s"

fun isDenyError :: "error \<Rightarrow> bool" where
  "isDenyError (denyError s) = True"
| "isDenyError e = False"

subsection \<open>Effects\<close>

text \<open>
  The calls the file makes on its collaborators, in the order they happen: a counter
  increment \<open>StatsdClient.Incr(name, tags, 1)\<close>, the two resolver lookups, the role
  extractor, the ACL evaluator, a log entry (level and message) and
  \<open>net.DialTimeout(network, address, timeout)\<close>. Every function that has an effect takes
  the trace so far and returns it extended.
\<close>

datatype event =
    Incr string "string list"
  | ResolverLookupPort string string
  | ResolverLookupIPAddr string
  | RoleFromRequestCall
  | ACLDecide string string
  | LogEntry string string
  | NetDialTimeout string string int

type_synonym trace = "event list"

text \<open>A Go call either returns or panics; a panic unwinds through every caller here.\<close>

datatype 'a outcome = Returned 'a | Panicked string

section \<open>The IP classifier\<close>

text \<open>\<open>addrIsInRuleRange\<close>, lines 102 to 115: the loop over the ranges, in order.\<close>

fun addrIsInRuleRange :: "linkage \<Rightarrow> RuleRange list \<Rightarrow> TCPAddr \<Rightarrow> bool" where
  "addrIsInRuleRange lk [] addr = False"
| "addrIsInRuleRange lk (rng # ranges) addr =
     (if RulePort rng \<noteq> 0 \<and> Port addr \<noteq> RulePort rng then addrIsInRuleRange lk ranges addr
      else if Contains lk (Net rng) (IP addr) then True
      else addrIsInRuleRange lk ranges addr)"

text \<open>\<open>classifyAddr\<close>, lines 117 to 135.\<close>

definition classifyAddr :: "linkage \<Rightarrow> Config \<Rightarrow> TCPAddr \<Rightarrow> ipType" where
  "classifyAddr lk config addr =
     (if \<not> IsGlobalUnicast lk (IP addr) \<or> IsLoopback lk (IP addr) then
        (if addrIsInRuleRange lk (AllowRanges config) addr then ipAllowUserConfigured
         else ipDenyNotGlobalUnicast)
      else if addrIsInRuleRange lk (AllowRanges config) addr then ipAllowUserConfigured
      else if addrIsInRuleRange lk (DenyRanges config) addr then ipDenyUserConfigured
      else if addrIsInRuleRange lk (PrivateRuleRanges lk) addr then ipDenyPrivateRange
      else ipAllowDefault)"

subsection \<open>The classifier as the spec words it\<close>

text \<open>
  Section 4.1 of the spec: an address matches a sequence of rule ranges when some entry's
  CIDR contains the IP and the entry's port is zero or equals the address's port; the
  class is that of the first rule, in the order of the list, whose condition holds, and
  allow-default when none does.
\<close>

definition spec_matches :: "linkage \<Rightarrow> RuleRange list \<Rightarrow> TCPAddr \<Rightarrow> bool" where
  "spec_matches lk ranges addr =
     (\<exists>rng \<in> set ranges.
        Contains lk (Net rng) (IP addr) \<and> (RulePort rng = 0 \<or> RulePort rng = Port addr))"

definition spec_rules :: "linkage \<Rightarrow> Config \<Rightarrow> TCPAddr \<Rightarrow> (bool \<times> ipType) list" where
  "spec_rules lk config addr =
     (let special = (\<not> IsGlobalUnicast lk (IP addr) \<or> IsLoopback lk (IP addr)) in
      [(special \<and> spec_matches lk (AllowRanges config) addr, ipAllowUserConfigured),
       (special, ipDenyNotGlobalUnicast),
       (spec_matches lk (AllowRanges config) addr, ipAllowUserConfigured),
       (spec_matches lk (DenyRanges config) addr, ipDenyUserConfigured),
       (spec_matches lk (PrivateRuleRanges lk) addr, ipDenyPrivateRange)])"

fun first_match :: "(bool \<times> 'a) list \<Rightarrow> 'a \<Rightarrow> 'a" where
  "first_match [] d = d"
| "first_match ((c, x) # rules) d = (if c then x else first_match rules d)"

definition spec_classify :: "linkage \<Rightarrow> Config \<Rightarrow> TCPAddr \<Rightarrow> ipType" where
  "spec_classify lk config addr = first_match (spec_rules lk config addr) ipAllowDefault"

section \<open>The safe resolver\<close>

text \<open>
  \<open>resolveTCPAddr\<close>, lines 137 to 165. Each of its four error returns is a branch; the
  resolver is consulted for the port first and for the host second, and only after
  \<open>net.SplitHostPort\<close> succeeded.
\<close>

definition resolveTCPAddr ::
  "linkage \<Rightarrow> Config \<Rightarrow> string \<Rightarrow> string \<Rightarrow> trace \<Rightarrow> (error + TCPAddr) \<times> trace" where
  "resolveTCPAddr lk config network addr tr =
     (if network \<noteq> ''tcp'' then
        (Inl (otherError (''unknown network type '' @ Quote lk network)), tr)
      else
        (case SplitHostPort lk addr of
           Inl err \<Rightarrow> (Inl err, tr)
         | Inr (host, port) \<Rightarrow>
             (let tr1 = tr @ [ResolverLookupPort network port] in
              case LookupPort (Resolver config) network port of
                Inl err \<Rightarrow> (Inl err, tr1)
              | Inr resolvedPort \<Rightarrow>
                  (let tr2 = tr1 @ [ResolverLookupIPAddr host] in
                   case LookupIPAddr (Resolver config) host of
                     Inl err \<Rightarrow> (Inl err, tr2)
                   | Inr ips \<Rightarrow>
                       (case ips of
                          [] \<Rightarrow> (Inl (otherError ''no IPs resolved''), tr2)
                        | ip0 # rest \<Rightarrow>
                            (Inr \<lparr>IP = AddrIP ip0, Port = resolvedPort, Zone = AddrZone ip0\<rparr>,
                             tr2))))))"

text \<open>
  \<open>safeResolve\<close>, lines 167 to 182, returns Go's triple (address, reason, error). The
  denial message is \<open>The destination address (%s) was denied by rule '%s'\<close> with the
  address and the classification's \<open>String\<close>.
\<close>

definition denialMessage :: "linkage \<Rightarrow> TCPAddr \<Rightarrow> ipType \<Rightarrow> string" where
  "denialMessage lk resolved classification =
     ''The destination address ('' @ IPString lk (IP resolved) @ '') was denied by rule ''
       @ [CHR 0x27] @ String classification @ [CHR 0x27]"

definition safeResolve ::
  "linkage \<Rightarrow> Config \<Rightarrow> string \<Rightarrow> string \<Rightarrow> trace
     \<Rightarrow> (TCPAddr option \<times> string \<times> error option) \<times> trace" where
  "safeResolve lk config network addr tr =
     (case resolveTCPAddr lk config network addr (tr @ [Incr ''resolver.attempts_total'' []]) of
        (Inl err, tr1) \<Rightarrow> ((None, [], Some err), tr1 @ [Incr ''resolver.errors_total'' []])
      | (Inr resolved, tr1) \<Rightarrow>
          (let classification = classifyAddr lk config resolved;
               tr2 = tr1 @ [Incr (statsdString classification) []]
           in if IsAllowed classification then
                ((Some resolved, String classification, None), tr2)
              else
                ((None, ''destination address was denied by rule, see error'',
                  Some (denyError (denialMessage lk resolved classification))), tr2)))"

section \<open>Role extraction and the ACL decision\<close>

text \<open>
  \<open>getRole\<close>, lines 640 to 663. Go returns the pair (role, error) with the empty role
  beside every error, so the result is a sum.
\<close>

definition getRole :: "Config \<Rightarrow> Request \<Rightarrow> trace \<Rightarrow> (error + string) \<times> trace" where
  "getRole config req tr =
     (let (res, tr1) =
            (case RoleFromRequest config of
               Some extract \<Rightarrow> (extract req, tr @ [RoleFromRequestCall])
             | None \<Rightarrow> (Inl (MissingRoleError ''RoleFromRequest is not configured''), tr))
      in case res of
           Inr r \<Rightarrow> (Inr r, tr1)
         | Inl err \<Rightarrow>
             if IsMissingRoleError err \<and> AllowMissingRole config then (Inr [], tr1)
             else (Inl err, tr1 @ [LogEntry ''error'' ''Unable to get role for request'']))"

text \<open>
  \<open>checkACLsForRequest\<close>, lines 685 to 753. \<open>submatch[1]\<close> on line 706 panics when the
  slice is \<open>nil\<close> or shorter than two; the ACL evaluator is called after it.
\<close>

definition checkACLsForRequest ::
  "linkage \<Rightarrow> Config \<Rightarrow> Request \<Rightarrow> string \<Rightarrow> trace \<Rightarrow> aclDecision outcome \<times> trace" where
  "checkACLsForRequest lk config req outHost tr =
     (let decision = \<lparr>reason = [], role = [], project = [], outboundHost = outHost,
                      resolvedAddr = None, allow = False, enforceWouldDeny = False\<rparr>
      in case EgressACL config of
           None \<Rightarrow>
             (Returned (decision\<lparr>allow := True, reason := ''Egress ACL is not configured''\<rparr>), tr)
         | Some decide \<Rightarrow>
             (case getRole config req tr of
                (Inl roleErr, tr1) \<Rightarrow>
                  (Returned (decision\<lparr>reason := ''Client role cannot be determined''\<rparr>),
                   tr1 @ [Incr ''acl.role_not_determined'' []])
              | (Inr r, tr1) \<Rightarrow>
                  (let decision1 = decision\<lparr>role := r\<rparr> in
                   case hostExtractRE lk outHost of
                     None \<Rightarrow> (Panicked ''index out of range [1] with length 0'', tr1)
                   | Some submatch \<Rightarrow>
                       if length submatch \<le> 1 then
                         (Panicked ''index out of range [1] with length 1'', tr1)
                       else
                         (let destination = submatch ! 1;
                              tr2 = tr1 @ [ACLDecide r destination]
                          in case decide r destination of
                               (aclDec, Some err) \<Rightarrow>
                                 (Returned (decision1\<lparr>reason := Reason aclDec\<rparr>),
                                  tr2 @ [LogEntry ''warning'' ''EgressAcl.Decide returned an error.'',
                                         Incr ''acl.decide_error'' []])
                             | (aclDec, None) \<Rightarrow>
                                 (let tags = [''role:'' @ role decision1,
                                              ''def_rule:'' @ (if Default aclDec then ''true'' else ''false''),
                                              ''project:'' @ Project aclDec];
                                      decision2 = decision1\<lparr>reason := Reason aclDec\<rparr>
                                  in case Result aclDec of
                                       Deny \<Rightarrow>
                                         (Returned (decision2\<lparr>enforceWouldDeny := True\<rparr>),
                                          tr2 @ [Incr ''acl.deny'' tags])
                                     | AllowAndReport \<Rightarrow>
                                         (Returned (decision2\<lparr>enforceWouldDeny := True, allow := True\<rparr>),
                                          tr2 @ [Incr ''acl.report'' tags])
                                     | Allow \<Rightarrow>
                                         (Returned (decision2\<lparr>allow := True, enforceWouldDeny := False\<rparr>),
                                          tr2 @ [Incr ''acl.allow'' tags])
                                     | UnknownResult n \<Rightarrow>
                                         (Returned (decision2\<lparr>reason := ''Internal error''\<rparr>),
                                          tr2 @ [LogEntry ''warning'' ''Unknown ACL action'',
                                                 Incr ''acl.unknown_error'' tags]))))))"

section \<open>The admission pipeline\<close>

text \<open>
  \<open>checkIfRequestShouldBeProxied\<close>, lines 665 to 683, returns Go's pair (decision, error).
\<close>

definition checkIfRequestShouldBeProxied ::
  "linkage \<Rightarrow> Config \<Rightarrow> Request \<Rightarrow> string \<Rightarrow> trace
     \<Rightarrow> (aclDecision \<times> error option) outcome \<times> trace" where
  "checkIfRequestShouldBeProxied lk config req outHost tr =
     (case checkACLsForRequest lk config req outHost tr of
        (Panicked p, tr1) \<Rightarrow> (Panicked p, tr1)
      | (Returned decision, tr1) \<Rightarrow>
          if allow decision then
            (case safeResolve lk config ''tcp'' outHost tr1 of
               ((resolved, why, Some err), tr2) \<Rightarrow>
                 if \<not> isDenyError err then (Returned (decision, Some err), tr2)
                 else
                   (Returned (decision\<lparr>reason := Error err @ ''. '' @ why,
                                       allow := False,
                                       enforceWouldDeny := True\<rparr>, None), tr2)
             | ((resolved, why, None), tr2) \<Rightarrow>
                 (Returned (decision\<lparr>resolvedAddr := resolved\<rparr>, None), tr2))
          else (Returned (decision, None), tr1))"

section \<open>Rejection responses\<close>




definition errorHeader :: string where
  "errorHeader = ''X-Smokescreen-Error''"

definition roleHeader :: string where
  "roleHeader = ''X-Smokescreen-Role''"


text \<open>
  \<open>fmt.Sprintf(denyMsgTmpl, host, reason)\<close> with the template
  \<open>Egress proxying is denied to host '%s': %s.\<close> of line 31.
\<close>

definition denyMsgTmpl :: "string \<Rightarrow> string \<Rightarrow> string" where
  "denyMsgTmpl host why =
     ''Egress proxying is denied to host '' @ [CHR 0x27] @ host @ [CHR 0x27] @ '': '' @ why @ ''.''"

text \<open>
  \<open>goproxy.NewResponse\<close> belongs to the proxy framework, a dependency of the package. It
  builds a response for the request with one \<open>Content-Type\<close> header, the status code
  and its standard text, and the body with its length; it leaves the protocol version
  at zero. \<open>goproxy.ContentTypeText\<close> is \<open>text/plain\<close> and
  \<open>http.StatusProxyAuthRequired\<close> is 407.
\<close>

definition ContentTypeText :: string where
  "ContentTypeText = ''text/plain''"

definition StatusProxyAuthRequired :: int where
  "StatusProxyAuthRequired = 407"

definition NewResponse :: "linkage \<Rightarrow> Request \<Rightarrow> string \<Rightarrow> int \<Rightarrow> string \<Rightarrow> Response" where
  "NewResponse lk r contentType status body =
     \<lparr>StatusCode = status,
      Status = StatusText lk status,
      ProtoMajor = 0,
      ProtoMinor = 0,
      Header = HeaderAdd Map.empty ''Content-Type'' contentType,
      Body = body,
      ContentLength = int (length body)\<rparr>"

text \<open>\<open>rejectResponse\<close>, lines 236 to 261. A newline is the byte 10.\<close>

definition rejectResponse ::
  "linkage \<Rightarrow> Request \<Rightarrow> Config \<Rightarrow> error \<Rightarrow> trace \<Rightarrow> Response \<times> trace" where
  "rejectResponse lk req config err tr =
     (let (msg0, tr1) =
            (if isDenyError err then (denyMsgTmpl (Host req) (Error err), tr)
             else (''An unexpected error occurred.'',
                   tr @ [LogEntry ''warning'' ''rejectResponse called with unexpected error'']));
          msg = (if AdditionalErrorMessageOnDeny config \<noteq> [] then
                   msg0 @ [CHR 0x0A, CHR 0x0A] @ AdditionalErrorMessageOnDeny config @ [CHR 0x0A]
                 else msg0);
          resp = NewResponse lk req ContentTypeText StatusProxyAuthRequired (msg @ [CHR 0x0A])
      in (resp\<lparr>Status := ''Request Rejected by Proxy'',
                ProtoMajor := ReqProtoMajor req,
                ProtoMinor := ReqProtoMinor req,
                Header := HeaderSet (Header resp) errorHeader msg\<rparr>, tr1))"

section \<open>The front-ends\<close>

subsection \<open>Port synthesis for classic proxy requests\<close>

text \<open>
  \<open>strings.LastIndex\<close> and \<open>net.JoinHostPort\<close> are two small string functions of Go's
  standard library, written out here as the library documents them: the index of the last
  instance of the substring, or \<open>-1\<close>; and \<open>host:port\<close>, with the host in square
  brackets when it holds a colon.
\<close>

definition LastIndex :: "string \<Rightarrow> string \<Rightarrow> int" where
  "LastIndex s substr =
     (case filter (\<lambda>i. take (length substr) (drop i s) = substr) (rev [0 ..< Suc (length s)]) of
        [] \<Rightarrow> - 1
      | i # rest \<Rightarrow> int i)"

definition JoinHostPort :: "string \<Rightarrow> string \<Rightarrow> string" where
  "JoinHostPort host port =
     (if CHR '':'' \<in> set host then ''['' @ host @ '']:'' @ port else host @ '':'' @ port)"

text \<open>
  Lines 317 to 328 of \<open>BuildProxy\<close>, under the comment \<open>Build an address parsable by
  net.ResolveTCPAddr\<close>: the \<open>remoteHost\<close> that the classic front-end hands to the
  admission pipeline.
\<close>

definition remoteHostOf :: "Request \<Rightarrow> string" where
  "remoteHostOf req =
     (let remoteHost = Host req in
      if LastIndex remoteHost '':'' \<le> LastIndex remoteHost '']'' then
        (if URLScheme req = ''http'' then JoinHostPort remoteHost ''80''
         else if URLScheme req = ''https'' then JoinHostPort remoteHost ''443''
         else JoinHostPort remoteHost ''0'')
      else remoteHost)"

subsection \<open>Request contexts\<close>

text \<open>
  The struct \<open>smokescreenContext\<close> of the source, without its start time (read by the
  log line only), and of the framework's \<open>goproxy.ProxyCtx\<close> the fields the file uses:
  \<open>UserData\<close> (the smokescreen context, when one is attached), \<open>Error\<close>, \<open>Req\<close> and
  \<open>Resp\<close>.
\<close>

record smokescreenContext =
  cfg :: Config
  decision :: "aclDecision option"
  traceId :: string
  proxyType :: string



subsection \<open>The classic HTTP proxy handler\<close>


subsection \<open>The CONNECT handler\<close>





section \<open>The dialer\<close>



section \<open>The framework's dispatch\<close>

text \<open>
  Modelled from the spec: the proxy framework (\<open>goproxy\<close>) that calls the two handlers and
  the dialer is a dependency of the package and is not part of \<open>smokescreen.go\<close>. Sections
  4.6 and 4.8 of the spec give what it does with a handler's answer. For a classic
  request: a synthesized response is returned to the client; otherwise the request is
  forwarded through the pooled transport, whose dial function is \<open>dialContext\<close>, and
  which either reuses a pooled socket (\<open>None\<close> below) or dials the address it was given.
  For \<open>CONNECT\<close>: on a rejection the framework answers with the response left in the
  context and rejects the tunnel; otherwise it establishes the tunnel and calls the
  dialer with the host the handler returned. The outcome of a request is then a
  rejection, a reused socket, or what the dialer returned. The response filter of lines
  370 to 385 neither resolves nor dials and is left out.
\<close>

datatype served =
    Rejected "Response option"
  | Reused
  | Dialed "error + conn"



section \<open>Observing the trace\<close>

text \<open>
  Four views of a trace: the names of the counters incremented, in order; the calls on
  the resolver; the calls on the ACL evaluator; and the events of a dial, which are the
  increment of \<open>cn.atpt.total\<close> and the call of \<open>net.DialTimeout\<close>.
\<close>

fun counterName :: "event \<Rightarrow> string list" where
  "counterName (Incr name tags) = [name]"
| "counterName e = []"

definition counters :: "trace \<Rightarrow> string list" where
  "counters tr = concat (map counterName tr)"

fun isResolverCall :: "event \<Rightarrow> bool" where
  "isResolverCall (ResolverLookupPort network port) = True"
| "isResolverCall (ResolverLookupIPAddr host) = True"
| "isResolverCall e = False"

definition resolverCalls :: "trace \<Rightarrow> trace" where
  "resolverCalls tr = filter isResolverCall tr"

fun isACLCall :: "event \<Rightarrow> bool" where
  "isACLCall (ACLDecide r destination) = True"
| "isACLCall e = False"

definition aclCalls :: "trace \<Rightarrow> trace" where
  "aclCalls tr = filter isACLCall tr"

fun isDialEvent :: "event \<Rightarrow> bool" where
  "isDialEvent (Incr name tags) = (name = ''cn.atpt.total'')"
| "isDialEvent (NetDialTimeout network address timeout) = True"
| "isDialEvent e = False"

definition dialEvents :: "trace \<Rightarrow> trace" where
  "dialEvents tr = filter isDialEvent tr"

text \<open>The first line of a body: the text before its first newline.\<close>

definition firstLine :: "string \<Rightarrow> string" where
  "firstLine s = takeWhile (\<lambda>c. c \<noteq> CHR 0x0A) s"

section \<open>Concrete collaborators\<close>

text \<open>
  The theorems below hold for every linkage, resolver, evaluator and extractor. To run the
  model on concrete requests this section fixes one of each: a linkage that follows Go's
  package \<open>net\<close> on four-byte IPv4 addresses (on other addresses it is not meant to
  agree with Go), and stubs for the injected collaborators in the manner of the
  end-to-end scenarios of section 8 of the spec.
\<close>

definition decDigit :: "nat \<Rightarrow> char" where
  "decDigit n = ''0123456789'' ! n"

definition decByte :: "8 word \<Rightarrow> string" where
  "decByte b =
     (let n = unat b in
      if n < 10 then [decDigit n]
      else if n < 100 then [decDigit (n div 10), decDigit (n mod 10)]
      else [decDigit (n div 100), decDigit (n div 10 mod 10), decDigit (n mod 10)])"

definition ipv4_String :: "IP \<Rightarrow> string" where
  "ipv4_String ip =
     (case ip of
        [a, b, c, d] \<Rightarrow> decByte a @ ''.'' @ decByte b @ ''.'' @ decByte c @ ''.'' @ decByte d
      | _ \<Rightarrow> ''?'')"

definition ipv4_IsLoopback :: "IP \<Rightarrow> bool" where
  "ipv4_IsLoopback ip = (case ip of [a, b, c, d] \<Rightarrow> a = 127 | _ \<Rightarrow> False)"

definition ipv4_IsGlobalUnicast :: "IP \<Rightarrow> bool" where
  "ipv4_IsGlobalUnicast ip =
     (case ip of
        [a, b, c, d] \<Rightarrow>
          ip \<noteq> [255, 255, 255, 255] \<and> ip \<noteq> [0, 0, 0, 0] \<and> a \<noteq> 127
          \<and> a AND 0xf0 \<noteq> 0xe0 \<and> \<not> (a = 169 \<and> b = 254)
      | _ \<Rightarrow> False)"

definition ipv4_Contains :: "IPNet \<Rightarrow> IP \<Rightarrow> bool" where
  "ipv4_Contains n ip =
     (length (NetIP n) = 4 \<and> length (Mask n) = 4 \<and> length ip = 4
      \<and> map2 (AND) (NetIP n) (Mask n) = map2 (AND) ip (Mask n))"

fun IndexByte :: "string \<Rightarrow> char \<Rightarrow> int" where
  "IndexByte [] c = - 1"
| "IndexByte (x # xs) c =
     (if x = c then 0 else (let i = IndexByte xs c in if i < 0 then - 1 else i + 1))"

definition addrErr :: "string \<Rightarrow> string \<Rightarrow> error + (string \<times> string)" where
  "addrErr addr why =
     Inl (otherError (if addr = [] then why else ''address '' @ addr @ '': '' @ why))"

text \<open>\<open>net.SplitHostPort\<close>, following the standard library's source.\<close>

definition go_SplitHostPort :: "string \<Rightarrow> error + (string \<times> string)" where
  "go_SplitHostPort hostport =
     (let i = LastIndex hostport '':'' in
      if i < 0 then addrErr hostport ''missing port in address''
      else if hd hostport = CHR ''['' then
        (let e = IndexByte hostport CHR '']'' in
         if e < 0 then addrErr hostport (''missing '' @ [CHR 0x27] @ '']'' @ [CHR 0x27] @ '' in address'')
         else if e + 1 = int (length hostport) then addrErr hostport ''missing port in address''
         else if e + 1 \<noteq> i then
           (if hostport ! nat (e + 1) = CHR '':'' then
              addrErr hostport ''too many colons in address''
            else addrErr hostport ''missing port in address'')
         else if CHR ''['' \<in> set (drop 1 hostport) then
           addrErr hostport (''unexpected '' @ [CHR 0x27] @ ''['' @ [CHR 0x27] @ '' in address'')
         else if CHR '']'' \<in> set (drop (nat (e + 1)) hostport) then
           addrErr hostport (''unexpected '' @ [CHR 0x27] @ '']'' @ [CHR 0x27] @ '' in address'')
         else Inr (take (nat (e - 1)) (drop 1 hostport), drop (nat (i + 1)) hostport))
      else
        (let host = take (nat i) hostport in
         if CHR '':'' \<in> set host then addrErr hostport ''too many colons in address''
         else if CHR ''['' \<in> set hostport then
           addrErr hostport (''unexpected '' @ [CHR 0x27] @ ''['' @ [CHR 0x27] @ '' in address'')
         else if CHR '']'' \<in> set hostport then
           addrErr hostport (''unexpected '' @ [CHR 0x27] @ '']'' @ [CHR 0x27] @ '' in address'')
         else Inr (host, drop (nat (i + 1)) hostport)))"

text \<open>
  \<open>(*net.TCPAddr).String\<close>, following the standard library: \<open><nil>\<close> for the nil pointer,
  otherwise the IP (empty when the address has none), the zone after a percent sign when
  there is one, and the port in decimal, joined by \<open>net.JoinHostPort\<close>.
\<close>

fun decNat :: "nat \<Rightarrow> string" where
  "decNat n = (if n < 10 then [decDigit n] else decNat (n div 10) @ [decDigit (n mod 10)])"

definition Itoa :: "int \<Rightarrow> string" where
  "Itoa i = (if i < 0 then ''-'' @ decNat (nat (- i)) else decNat (nat i))"

definition ipv4_TCPAddrString :: "TCPAddr option \<Rightarrow> string" where
  "ipv4_TCPAddrString a =
     (case a of
        None \<Rightarrow> ''<nil>''
      | Some t \<Rightarrow>
          (let ip = (if IP t = [] then [] else ipv4_String (IP t)) in
           if Zone t \<noteq> [] then JoinHostPort (ip @ ''%'' @ Zone t) (Itoa (Port t))
           else JoinHostPort ip (Itoa (Port t))))"

text \<open>
  A host extractor in the manner of a pattern \<open>^([^:]*)(:\d+)?$\<close>: a host without a colon,
  optionally followed by a colon and digits; everything else does not match.
\<close>

definition exampleHostExtract :: "string \<Rightarrow> string list option" where
  "exampleHostExtract s =
     (let host = takeWhile (\<lambda>c. c \<noteq> CHR '':'') s;
          rest = dropWhile (\<lambda>c. c \<noteq> CHR '':'') s
      in if rest = [] then Some [s, host, []]
         else if tl rest \<noteq> [] \<and> list_all (\<lambda>c. c \<in> set ''0123456789'') (tl rest) then
           Some [s, host, rest]
         else None)"

definition examplePrivateRanges :: "RuleRange list" where
  "examplePrivateRanges =
     [\<lparr>Net = \<lparr>NetIP = [10, 0, 0, 0], Mask = [255, 0, 0, 0]\<rparr>, RulePort = 0\<rparr>,
      \<lparr>Net = \<lparr>NetIP = [172, 16, 0, 0], Mask = [255, 240, 0, 0]\<rparr>, RulePort = 0\<rparr>,
      \<lparr>Net = \<lparr>NetIP = [192, 168, 0, 0], Mask = [255, 255, 0, 0]\<rparr>, RulePort = 0\<rparr>]"

definition exampleLinkage :: linkage where
  "exampleLinkage =
     \<lparr>IsGlobalUnicast = ipv4_IsGlobalUnicast,
      IsLoopback = ipv4_IsLoopback,
      Contains = ipv4_Contains,
      IPString = ipv4_String,
      Quote = (\<lambda>s. [CHR 0x22] @ s @ [CHR 0x22]),
      SplitHostPort = go_SplitHostPort,
      TCPAddrString = ipv4_TCPAddrString,
      StatusText = (\<lambda>code. if code = 407 then ''Proxy Authentication Required'' else []),
      DialTimeout = (\<lambda>network address timeout. Inr (NetConn network address)),
      PrivateRuleRanges = examplePrivateRanges,
      hostExtractRE = exampleHostExtract\<rparr>"

definition exampleResolver :: Resolver where
  "exampleResolver =
     \<lparr>LookupPort = (\<lambda>network port.
        if port = ''443'' then Inr 443 else if port = ''80'' then Inr 80
        else Inl (otherError ''unknown port'')),
      LookupIPAddr = (\<lambda>host.
        if host = ''example.com'' then
          Inr [\<lparr>AddrIP = [93, 184, 216, 34], AddrZone = []\<rparr>,
               \<lparr>AddrIP = [10, 0, 0, 7], AddrZone = []\<rparr>]
        else if host = ''evil.test'' then Inr [\<lparr>AddrIP = [10, 0, 0, 5], AddrZone = []\<rparr>]
        else if host = ''empty.test'' then Inr []
        else Inl (otherError ''no such host''))\<rparr>"

definition exampleDecide :: "string \<Rightarrow> string \<Rightarrow> Decision \<times> error option" where
  "exampleDecide r destination =
     (if destination = ''blocked.test'' then
        (\<lparr>Reason = ''host is blocked'', Default = False, Result = Deny, Project = ''security''\<rparr>, None)
      else if destination = ''shadow.test'' then
        (\<lparr>Reason = ''rule is in report mode'', Default = False, Result = AllowAndReport,
          Project = ''security''\<rparr>, None)
      else
        (\<lparr>Reason = ''host matched allowed domain in rule'', Default = False, Result = Allow,
          Project = ''security''\<rparr>, None))"

definition exampleRoleFromRequest :: "Request \<Rightarrow> error + string" where
  "exampleRoleFromRequest req =
     (case ReqHeader req roleHeader of
        Some (r # rs) \<Rightarrow> Inr r
      | _ \<Rightarrow> Inl (MissingRoleError ''no role header''))"

definition exampleConfig :: Config where
  "exampleConfig =
     \<lparr>AllowRanges = [],
      DenyRanges = [],
      Resolver = exampleResolver,
      ConnectTimeout = 10,
      IdleTimeout = 0,
      AllowMissingRole = False,
      AdditionalErrorMessageOnDeny = [],
      EgressACL = Some exampleDecide,
      RoleFromRequest = Some exampleRoleFromRequest\<rparr>"

definition exampleRequest :: "string \<Rightarrow> string \<Rightarrow> Request" where
  "exampleRequest host r =
     \<lparr>Host = host,
      URLScheme = ''https'',
      ReqProtoMajor = 1,
      ReqProtoMinor = 1,
      ReqHeader = (if r = [] then Map.empty else [roleHeader \<mapsto> [r]]),
      RemoteAddr = ''192.0.2.1:50000'',
      RequestURI = []\<rparr>"



section \<open>Evaluation rules\<close>

declare decNat.simps [simp del]

lemmas example_defs =
  ipv4_TCPAddrString_def Itoa_def decNat.simps JoinHostPort_def
  exampleLinkage_def exampleResolver_def exampleConfig_def exampleRequest_def
  exampleDecide_def exampleRoleFromRequest_def exampleHostExtract_def examplePrivateRanges_def
  go_SplitHostPort_def addrErr_def LastIndex_def ipv4_Contains_def ipv4_IsGlobalUnicast_def
  ipv4_IsLoopback_def ipv4_String_def decByte_def decDigit_def roleHeader_def
  MissingRoleError_def Let_def

lemmas pipeline_defs =
  checkIfRequestShouldBeProxied_def checkACLsForRequest_def getRole_def
  safeResolve_def resolveTCPAddr_def classifyAddr_def denialMessage_def

section \<open>How each function extends the trace\<close>

lemma counters_simps [simp]:
  "counters [] = []"
  "counters (e # tr) = counterName e @ counters tr"
  "counters (tr @ tr') = counters tr @ counters tr'"
  by (simp_all add: counters_def)

lemma resolverCalls_simps [simp]:
  "resolverCalls [] = []"
  "resolverCalls (e # tr) = (if isResolverCall e then e # resolverCalls tr else resolverCalls tr)"
  "resolverCalls (tr @ tr') = resolverCalls tr @ resolverCalls tr'"
  by (simp_all add: resolverCalls_def)

lemma aclCalls_simps [simp]:
  "aclCalls [] = []"
  "aclCalls (e # tr) = (if isACLCall e then e # aclCalls tr else aclCalls tr)"
  "aclCalls (tr @ tr') = aclCalls tr @ aclCalls tr'"
  by (simp_all add: aclCalls_def)

lemma dialEvents_simps [simp]:
  "dialEvents [] = []"
  "dialEvents (e # tr) = (if isDialEvent e then e # dialEvents tr else dialEvents tr)"
  "dialEvents (tr @ tr') = dialEvents tr @ dialEvents tr'"
  by (simp_all add: dialEvents_def)

lemma resolveTCPAddr_counters:
  "counters (snd (resolveTCPAddr lk config network addr tr)) = counters tr"
  by (simp add: resolveTCPAddr_def Let_def split: sum.splits list.splits prod.splits)

lemma resolveTCPAddr_result_any_trace:
  "fst (resolveTCPAddr lk config network addr tr) = fst (resolveTCPAddr lk config network addr tr')"
  by (simp add: resolveTCPAddr_def Let_def split: sum.splits list.splits prod.splits)



lemma statsdString_not_errors: "statsdString c \<noteq> ''resolver.errors_total''"
  by (cases c) simp_all



lemma getRole_resolverCalls:
  "resolverCalls (snd (getRole config req tr)) = resolverCalls tr"
  by (simp add: getRole_def Let_def split: option.splits sum.splits prod.splits)

lemma getRole_aclCalls:
  "aclCalls (snd (getRole config req tr)) = aclCalls tr"
  by (simp add: getRole_def Let_def split: option.splits sum.splits prod.splits)


lemma checkACLsForRequest_resolverCalls:
  "resolverCalls (snd (checkACLsForRequest lk config req outHost tr)) = resolverCalls tr"
proof (cases "getRole config req tr")
  case (Pair r tr1)
  from getRole_resolverCalls [of config req tr] Pair
  have "resolverCalls tr1 = resolverCalls tr" by simp
  with Pair show ?thesis
    by (simp add: checkACLsForRequest_def Let_def
        split: option.splits sum.splits prod.splits DecisionResult.splits)
qed


section \<open>The IP classifier is the first-match rule list of the spec\<close>

text \<open>The loop of \<open>addrIsInRuleRange\<close> finds a matching entry exactly when there is one.\<close>

lemma addrIsInRuleRange_spec_matches:
  "addrIsInRuleRange lk ranges addr = spec_matches lk ranges addr"
  by (induction ranges) (auto simp: spec_matches_def)

text \<open>
  C1. For every linkage, configuration and resolved TCP address, \<open>classifyAddr\<close> returns
  the class of the first rule that applies, in the order of section 4.1: allow-user when
  the address is not global unicast or is loopback and matches \<open>AllowRanges\<close>,
  deny-not-global-unicast when it is not global unicast or is loopback, allow-user when
  it matches \<open>AllowRanges\<close>, deny-user when it matches \<open>DenyRanges\<close>, deny-private when
  it matches the private-range table, and allow-default otherwise; a range matches when
  its CIDR contains the IP and its port is zero or the address's port. The result type
  \<open>ipType\<close> has exactly the five classes.
\<close>

theorem classifyAddr_first_match:
  "classifyAddr lk config addr = spec_classify lk config addr"
  by (simp add: classifyAddr_def spec_classify_def spec_rules_def Let_def
      addrIsInRuleRange_spec_matches)

theorem classifyAddr_first_match_witness:
  "classifyAddr exampleLinkage exampleConfig \<lparr>IP = [10, 0, 0, 5], Port = 443, Zone = []\<rparr>
     = spec_classify exampleLinkage exampleConfig \<lparr>IP = [10, 0, 0, 5], Port = 443, Zone = []\<rparr>
   \<and> spec_classify exampleLinkage exampleConfig \<lparr>IP = [10, 0, 0, 5], Port = 443, Zone = []\<rparr>
     = ipDenyPrivateRange"
proof -
  have "spec_classify exampleLinkage exampleConfig \<lparr>IP = [10, 0, 0, 5], Port = 443, Zone = []\<rparr>
          = ipDenyPrivateRange"
    by (simp add: spec_classify_def spec_rules_def spec_matches_def example_defs)
  with classifyAddr_first_match
         [of exampleLinkage exampleConfig "\<lparr>IP = [10, 0, 0, 5], Port = 443, Zone = []\<rparr>"]
  show ?thesis by simp
qed

section \<open>The model on the example collaborators\<close>

lemma example_resolve_evil:
  "fst (resolveTCPAddr exampleLinkage exampleConfig ''tcp'' ''evil.test:443'' tr)
     = Inr \<lparr>IP = [10, 0, 0, 5], Port = 443, Zone = []\<rparr>"
  by (simp add: resolveTCPAddr_def example_defs)

lemma example_classify_evil:
  "classifyAddr exampleLinkage exampleConfig \<lparr>IP = [10, 0, 0, 5], Port = 443, Zone = []\<rparr>
     = ipDenyPrivateRange"
  by (simp add: classifyAddr_def example_defs)

lemma example_resolve_empty:
  "fst (resolveTCPAddr exampleLinkage exampleConfig ''tcp'' ''empty.test:443'' tr)
     = Inl (otherError ''no IPs resolved'')"
  by (simp add: resolveTCPAddr_def example_defs)

section \<open>The resolver step\<close>

text \<open>
  C6. For every call of \<open>resolveTCPAddr\<close>: when the network is not \<open>tcp\<close> it fails
  with the error \<open>unknown network type\<close> followed by the quoted network, which is not a
  denial, and leaves the trace as it was; when the host and port were split, the port was
  looked up and the resolver answers the host with no address, it fails with
  \<open>no IPs resolved\<close>; when the resolver answers with at least one address, the result is
  the TCP address made of the first address's IP and zone and the looked-up port; and
  every TCP address it returns is built that way.
\<close>

theorem resolveTCPAddr_results:
  "(network \<noteq> ''tcp'' \<longrightarrow>
      resolveTCPAddr lk config network addr tr
        = (Inl (otherError (''unknown network type '' @ Quote lk network)), tr)
      \<and> \<not> isDenyError (otherError (''unknown network type '' @ Quote lk network)))
   \<and> (\<forall>host port p.
        network = ''tcp'' \<and> SplitHostPort lk addr = Inr (host, port)
        \<and> LookupPort (Resolver config) ''tcp'' port = Inr p \<longrightarrow>
          (LookupIPAddr (Resolver config) host = Inr [] \<longrightarrow>
             fst (resolveTCPAddr lk config network addr tr) = Inl (otherError ''no IPs resolved''))
          \<and> (\<forall>ip0 rest. LookupIPAddr (Resolver config) host = Inr (ip0 # rest) \<longrightarrow>
                fst (resolveTCPAddr lk config network addr tr)
                  = Inr \<lparr>IP = AddrIP ip0, Port = p, Zone = AddrZone ip0\<rparr>))
   \<and> (\<forall>a. fst (resolveTCPAddr lk config network addr tr) = Inr a \<longrightarrow>
        (\<exists>host port p ip0 rest.
           network = ''tcp'' \<and> SplitHostPort lk addr = Inr (host, port)
           \<and> LookupPort (Resolver config) ''tcp'' port = Inr p
           \<and> LookupIPAddr (Resolver config) host = Inr (ip0 # rest)
           \<and> a = \<lparr>IP = AddrIP ip0, Port = p, Zone = AddrZone ip0\<rparr>))"
proof (intro conjI allI impI)
  assume "network \<noteq> ''tcp''"
  then show "resolveTCPAddr lk config network addr tr
        = (Inl (otherError (''unknown network type '' @ Quote lk network)), tr)"
    by (simp add: resolveTCPAddr_def)
next
  show "\<not> isDenyError (otherError (''unknown network type '' @ Quote lk network))" by simp
next
  fix host port p
  assume "network = ''tcp'' \<and> SplitHostPort lk addr = Inr (host, port)
        \<and> LookupPort (Resolver config) ''tcp'' port = Inr p"
    and "LookupIPAddr (Resolver config) host = Inr []"
  then show "fst (resolveTCPAddr lk config network addr tr) = Inl (otherError ''no IPs resolved'')"
    by (simp add: resolveTCPAddr_def)
next
  fix host port p ip0 rest
  assume "network = ''tcp'' \<and> SplitHostPort lk addr = Inr (host, port)
        \<and> LookupPort (Resolver config) ''tcp'' port = Inr p"
    and "LookupIPAddr (Resolver config) host = Inr (ip0 # rest)"
  then show "fst (resolveTCPAddr lk config network addr tr)
                  = Inr \<lparr>IP = AddrIP ip0, Port = p, Zone = AddrZone ip0\<rparr>"
    by (simp add: resolveTCPAddr_def)
next
  fix a
  assume "fst (resolveTCPAddr lk config network addr tr) = Inr a"
  then show "\<exists>host port p ip0 rest.
           network = ''tcp'' \<and> SplitHostPort lk addr = Inr (host, port)
           \<and> LookupPort (Resolver config) ''tcp'' port = Inr p
           \<and> LookupIPAddr (Resolver config) host = Inr (ip0 # rest)
           \<and> a = \<lparr>IP = AddrIP ip0, Port = p, Zone = AddrZone ip0\<rparr>"
    by (auto simp: resolveTCPAddr_def Let_def split: if_splits sum.splits list.splits prod.splits)
qed

theorem resolveTCPAddr_results_witness:
  "resolveTCPAddr exampleLinkage exampleConfig ''udp'' ''example.com:443'' []
     = (Inl (otherError (''unknown network type '' @ [CHR 0x22] @ ''udp'' @ [CHR 0x22])), [])
   \<and> fst (resolveTCPAddr exampleLinkage exampleConfig ''tcp'' ''empty.test:443'' [])
       = Inl (otherError ''no IPs resolved'')
   \<and> fst (resolveTCPAddr exampleLinkage exampleConfig ''tcp'' ''example.com:443'' [])
       = Inr \<lparr>IP = [93, 184, 216, 34], Port = 443, Zone = []\<rparr>"
proof -
  have s1: "SplitHostPort exampleLinkage ''empty.test:443'' = Inr (''empty.test'', ''443'')"
    by (simp add: example_defs)
  have s2: "SplitHostPort exampleLinkage ''example.com:443'' = Inr (''example.com'', ''443'')"
    by (simp add: example_defs)
  have p: "LookupPort (Resolver exampleConfig) ''tcp'' ''443'' = Inr 443"
    by (simp add: example_defs)
  have i1: "LookupIPAddr (Resolver exampleConfig) ''empty.test'' = Inr []"
    by (simp add: example_defs)
  have i2: "LookupIPAddr (Resolver exampleConfig) ''example.com''
              = Inr [\<lparr>AddrIP = [93, 184, 216, 34], AddrZone = []\<rparr>,
                     \<lparr>AddrIP = [10, 0, 0, 7], AddrZone = []\<rparr>]"
    by (simp add: example_defs)
  have q: "Quote exampleLinkage ''udp'' = [CHR 0x22] @ ''udp'' @ [CHR 0x22]"
    by (simp add: example_defs)
  from resolveTCPAddr_results [where network = "''udp''" and lk = exampleLinkage
         and config = exampleConfig and addr = "''example.com:443''" and tr = "[]"] q
  have a: "resolveTCPAddr exampleLinkage exampleConfig ''udp'' ''example.com:443'' []
     = (Inl (otherError (''unknown network type '' @ [CHR 0x22] @ ''udp'' @ [CHR 0x22])), [])"
    by simp
  from resolveTCPAddr_results [where network = "''tcp''" and lk = exampleLinkage
         and config = exampleConfig and addr = "''empty.test:443''" and tr = "[]"] s1 p i1
  have b: "fst (resolveTCPAddr exampleLinkage exampleConfig ''tcp'' ''empty.test:443'' [])
       = Inl (otherError ''no IPs resolved'')"
    by blast
  from resolveTCPAddr_results [where network = "''tcp''" and lk = exampleLinkage
         and config = exampleConfig and addr = "''example.com:443''" and tr = "[]"] s2 p i2
  have c: "fst (resolveTCPAddr exampleLinkage exampleConfig ''tcp'' ''example.com:443'' [])
       = Inr \<lparr>IP = [93, 184, 216, 34], Port = 443, Zone = []\<rparr>"
    by force
  from a b c show ?thesis by simp
qed

section \<open>The counters of the safe resolver\<close>

text \<open>
  C7, as amended. For every call of \<open>safeResolve\<close> the counters it increments are, in
  order: \<open>resolver.attempts_total\<close>; then \<open>resolver.errors_total\<close> when the resolution
  itself fails, and otherwise the one counter of the classification bucket of the
  resolved address. When the resolved address is classified as a denial the call fails
  with the denial error, and the counters incremented are \<open>resolver.attempts_total\<close>
  and the bucket's counter only: the bucket's counter is never \<open>resolver.errors_total\<close>.
\<close>

theorem safeResolve_counters:
  "counters (snd (safeResolve lk config network addr tr))
     = counters tr @ ''resolver.attempts_total'' #
         (case fst (resolveTCPAddr lk config network addr tr) of
            Inl err \<Rightarrow> [''resolver.errors_total'']
          | Inr resolved \<Rightarrow> [statsdString (classifyAddr lk config resolved)])
   \<and> (\<forall>resolved.
        fst (resolveTCPAddr lk config network addr tr) = Inr resolved
        \<and> \<not> IsAllowed (classifyAddr lk config resolved) \<longrightarrow>
          snd (snd (fst (safeResolve lk config network addr tr)))
            = Some (denyError (denialMessage lk resolved (classifyAddr lk config resolved)))
          \<and> counters (snd (safeResolve lk config network addr tr))
              = counters tr @ [''resolver.attempts_total'',
                               statsdString (classifyAddr lk config resolved)]
          \<and> statsdString (classifyAddr lk config resolved) \<noteq> ''resolver.errors_total'')"
proof -
  obtain r tr1 where
    R: "resolveTCPAddr lk config network addr (tr @ [Incr ''resolver.attempts_total'' []]) = (r, tr1)"
    by (cases "resolveTCPAddr lk config network addr (tr @ [Incr ''resolver.attempts_total'' []])")
  from resolveTCPAddr_counters [of lk config network addr "tr @ [Incr ''resolver.attempts_total'' []]"] R
  have c: "counters tr1 = counters tr @ [''resolver.attempts_total'']" by simp
  from resolveTCPAddr_result_any_trace
         [of lk config network addr tr "tr @ [Incr ''resolver.attempts_total'' []]"] R
  have f: "fst (resolveTCPAddr lk config network addr tr) = r" by simp
  show ?thesis
  proof (cases r)
    case (Inl e)
    with R c f show ?thesis by (simp add: safeResolve_def)
  next
    case (Inr resolved)
    with R c f show ?thesis
      by (simp add: safeResolve_def Let_def statsdString_not_errors del: IsAllowed.simps)
  qed
qed

theorem safeResolve_counters_witness:
  "counters (snd (safeResolve exampleLinkage exampleConfig ''tcp'' ''empty.test:443'' []))
     = [''resolver.attempts_total'', ''resolver.errors_total'']
   \<and> snd (snd (fst (safeResolve exampleLinkage exampleConfig ''tcp'' ''evil.test:443'' [])))
       = Some (denyError (denialMessage exampleLinkage
                 \<lparr>IP = [10, 0, 0, 5], Port = 443, Zone = []\<rparr> ipDenyPrivateRange))
   \<and> counters (snd (safeResolve exampleLinkage exampleConfig ''tcp'' ''evil.test:443'' []))
       = [''resolver.attempts_total'', ''resolver.deny.private_range'']"
proof -
  from safeResolve_counters [where lk = exampleLinkage and config = exampleConfig
         and network = "''tcp''" and addr = "''empty.test:443''" and tr = "[]"]
  have a: "counters (snd (safeResolve exampleLinkage exampleConfig ''tcp'' ''empty.test:443'' []))
     = [''resolver.attempts_total'', ''resolver.errors_total'']"
    by (simp add: example_resolve_empty)
  have "\<not> IsAllowed (classifyAddr exampleLinkage exampleConfig
                        \<lparr>IP = [10, 0, 0, 5], Port = 443, Zone = []\<rparr>)"
    by (simp add: example_classify_evil)
  with safeResolve_counters [where lk = exampleLinkage and config = exampleConfig
         and network = "''tcp''" and addr = "''evil.test:443''" and tr = "[]"]
       example_resolve_evil [of "[]"]
  have "snd (snd (fst (safeResolve exampleLinkage exampleConfig ''tcp'' ''evil.test:443'' [])))
       = Some (denyError (denialMessage exampleLinkage
                 \<lparr>IP = [10, 0, 0, 5], Port = 443, Zone = []\<rparr>
                 (classifyAddr exampleLinkage exampleConfig
                        \<lparr>IP = [10, 0, 0, 5], Port = 443, Zone = []\<rparr>)))
   \<and> counters (snd (safeResolve exampleLinkage exampleConfig ''tcp'' ''evil.test:443'' []))
       = counters [] @ [''resolver.attempts_total'',
            statsdString (classifyAddr exampleLinkage exampleConfig
                        \<lparr>IP = [10, 0, 0, 5], Port = 443, Zone = []\<rparr>)]"
    by blast
  then have b: "snd (snd (fst (safeResolve exampleLinkage exampleConfig ''tcp'' ''evil.test:443'' [])))
       = Some (denyError (denialMessage exampleLinkage
                 \<lparr>IP = [10, 0, 0, 5], Port = 443, Zone = []\<rparr> ipDenyPrivateRange))
   \<and> counters (snd (safeResolve exampleLinkage exampleConfig ''tcp'' ''evil.test:443'' []))
       = [''resolver.attempts_total'', ''resolver.deny.private_range'']"
    by (simp add: example_classify_evil)
  from a b show ?thesis by simp
qed

text \<open>
  C7 as stated has \<open>resolver.errors_total\<close> incremented on every failure, denials
  included. The resolver of the example answers \<open>evil.test\<close> with \<open>10.0.0.5\<close>, a private
  address: the call fails with a denial, and \<open>resolver.errors_total\<close> is not among the
  events.
\<close>

theorem safeResolve_denial_counterexample:
  "safeResolve exampleLinkage exampleConfig ''tcp'' ''evil.test:443'' []
     = ((None, ''destination address was denied by rule, see error'',
         Some (denyError (''The destination address (10.0.0.5) was denied by rule ''
                 @ [CHR 0x27] @ ''Deny: Private Range'' @ [CHR 0x27]))),
        [Incr ''resolver.attempts_total'' [],
         ResolverLookupPort ''tcp'' ''443'',
         ResolverLookupIPAddr ''evil.test'',
         Incr ''resolver.deny.private_range'' []])
   \<and> Incr ''resolver.errors_total'' []
       \<notin> set (snd (safeResolve exampleLinkage exampleConfig ''tcp'' ''evil.test:443'' []))"
  by (simp add: safeResolve_def resolveTCPAddr_def classifyAddr_def denialMessage_def
      example_defs)

section \<open>What the admission pipeline returns\<close>

lemma safeResolve_denied:
  assumes "fst (resolveTCPAddr lk config network addr tr) = Inr resolved"
    and "\<not> IsAllowed (classifyAddr lk config resolved)"
  shows "fst (safeResolve lk config network addr tr)
           = (None, ''destination address was denied by rule, see error'',
              Some (denyError (denialMessage lk resolved (classifyAddr lk config resolved))))"
proof -
  obtain r tr1 where
    R: "resolveTCPAddr lk config network addr (tr @ [Incr ''resolver.attempts_total'' []]) = (r, tr1)"
    by (cases "resolveTCPAddr lk config network addr (tr @ [Incr ''resolver.attempts_total'' []])")
  from resolveTCPAddr_result_any_trace
         [of lk config network addr tr "tr @ [Incr ''resolver.attempts_total'' []]"] R assms(1)
  have "r = Inr resolved" by simp
  with R assms(2) show ?thesis
    by (simp add: safeResolve_def Let_def del: IsAllowed.simps)
qed

lemma example_acl_blocked:
  "checkACLsForRequest exampleLinkage exampleConfig (exampleRequest ''blocked.test:443'' ''foo'')
     ''blocked.test:443'' []
   = (Returned \<lparr>reason = ''host is blocked'', role = ''foo'', project = [],
                outboundHost = ''blocked.test:443'', resolvedAddr = None, allow = False,
                enforceWouldDeny = True\<rparr>,
      [RoleFromRequestCall, ACLDecide ''foo'' ''blocked.test'',
       Incr ''acl.deny'' [''role:foo'', ''def_rule:false'', ''project:security'']])"
  by (simp add: checkACLsForRequest_def getRole_def example_defs Let_def)

lemma example_acl_evil:
  "checkACLsForRequest exampleLinkage exampleConfig (exampleRequest ''evil.test:443'' ''foo'')
     ''evil.test:443'' []
   = (Returned \<lparr>reason = ''host matched allowed domain in rule'', role = ''foo'', project = [],
                outboundHost = ''evil.test:443'', resolvedAddr = None, allow = True,
                enforceWouldDeny = False\<rparr>,
      [RoleFromRequestCall, ACLDecide ''foo'' ''evil.test'',
       Incr ''acl.allow'' [''role:foo'', ''def_rule:false'', ''project:security'']])"
  by (simp add: checkACLsForRequest_def getRole_def example_defs Let_def)

text \<open>
  C2, as amended. For every request: when the ACL decision has \<open>allow\<close> false,
  \<open>checkIfRequestShouldBeProxied\<close> returns that decision unchanged (its reason verbatim)
  with no error and with the trace of the ACL step, in which the resolver was not
  called; and when the ACL allows but the resolved address is classified as a denial, the
  decision is returned with \<open>allow\<close> false, \<open>enforceWouldDeny\<close> true and the reason
  \<open>The destination address (<ip>) was denied by rule '<classification-name>'. destination
  address was denied by rule, see error\<close>: the classification name stands inside the
  denial message, and the sentence after the full stop is fixed.
\<close>

theorem checkIfRequestShouldBeProxied_admission:
  "(\<forall>d tr1.
      checkACLsForRequest lk config req outHost tr = (Returned d, tr1) \<and> \<not> allow d \<longrightarrow>
        checkIfRequestShouldBeProxied lk config req outHost tr = (Returned (d, None), tr1)
        \<and> resolverCalls tr1 = resolverCalls tr)
   \<and> (\<forall>d tr1 resolved.
        checkACLsForRequest lk config req outHost tr = (Returned d, tr1) \<and> allow d
        \<and> fst (resolveTCPAddr lk config ''tcp'' outHost tr1) = Inr resolved
        \<and> \<not> IsAllowed (classifyAddr lk config resolved) \<longrightarrow>
          fst (checkIfRequestShouldBeProxied lk config req outHost tr)
            = Returned
                (d\<lparr>reason := denialMessage lk resolved (classifyAddr lk config resolved)
                               @ ''. destination address was denied by rule, see error'',
                    allow := False,
                    enforceWouldDeny := True\<rparr>, None))"
proof (intro conjI allI impI)
  fix d tr1
  assume a: "checkACLsForRequest lk config req outHost tr = (Returned d, tr1) \<and> \<not> allow d"
  then show "checkIfRequestShouldBeProxied lk config req outHost tr = (Returned (d, None), tr1)"
    by (simp add: checkIfRequestShouldBeProxied_def)
  from checkACLsForRequest_resolverCalls [of lk config req outHost tr] a
  show "resolverCalls tr1 = resolverCalls tr" by simp
next
  fix d tr1 resolved
  assume a: "checkACLsForRequest lk config req outHost tr = (Returned d, tr1) \<and> allow d
        \<and> fst (resolveTCPAddr lk config ''tcp'' outHost tr1) = Inr resolved
        \<and> \<not> IsAllowed (classifyAddr lk config resolved)"
  then have "fst (safeResolve lk config ''tcp'' outHost tr1)
           = (None, ''destination address was denied by rule, see error'',
              Some (denyError (denialMessage lk resolved (classifyAddr lk config resolved))))"
    by (simp add: safeResolve_denied del: IsAllowed.simps)
  with a show "fst (checkIfRequestShouldBeProxied lk config req outHost tr)
            = Returned
                (d\<lparr>reason := denialMessage lk resolved (classifyAddr lk config resolved)
                               @ ''. destination address was denied by rule, see error'',
                    allow := False,
                    enforceWouldDeny := True\<rparr>, None)"
    by (cases "safeResolve lk config ''tcp'' outHost tr1")
       (simp add: checkIfRequestShouldBeProxied_def del: IsAllowed.simps)
qed

theorem checkIfRequestShouldBeProxied_admission_witness:
  "checkIfRequestShouldBeProxied exampleLinkage exampleConfig
       (exampleRequest ''blocked.test:443'' ''foo'') ''blocked.test:443'' []
     = (Returned (\<lparr>reason = ''host is blocked'', role = ''foo'', project = [],
                   outboundHost = ''blocked.test:443'', resolvedAddr = None, allow = False,
                   enforceWouldDeny = True\<rparr>, None),
        [RoleFromRequestCall, ACLDecide ''foo'' ''blocked.test'',
         Incr ''acl.deny'' [''role:foo'', ''def_rule:false'', ''project:security'']])
   \<and> fst (checkIfRequestShouldBeProxied exampleLinkage exampleConfig
            (exampleRequest ''evil.test:443'' ''foo'') ''evil.test:443'' [])
     = Returned (\<lparr>reason = denialMessage exampleLinkage
                               \<lparr>IP = [10, 0, 0, 5], Port = 443, Zone = []\<rparr> ipDenyPrivateRange
                             @ ''. destination address was denied by rule, see error'',
                   role = ''foo'', project = [],
                   outboundHost = ''evil.test:443'', resolvedAddr = None, allow = False,
                   enforceWouldDeny = True\<rparr>, None)"
proof -
  from checkIfRequestShouldBeProxied_admission
         [where lk = exampleLinkage and config = exampleConfig
            and req = "exampleRequest ''blocked.test:443'' ''foo''"
            and outHost = "''blocked.test:443''" and tr = "[]"]
       example_acl_blocked
  have a: "checkIfRequestShouldBeProxied exampleLinkage exampleConfig
       (exampleRequest ''blocked.test:443'' ''foo'') ''blocked.test:443'' []
     = (Returned (\<lparr>reason = ''host is blocked'', role = ''foo'', project = [],
                   outboundHost = ''blocked.test:443'', resolvedAddr = None, allow = False,
                   enforceWouldDeny = True\<rparr>, None),
        [RoleFromRequestCall, ACLDecide ''foo'' ''blocked.test'',
         Incr ''acl.deny'' [''role:foo'', ''def_rule:false'', ''project:security'']])"
    by simp
  have n: "\<not> IsAllowed (classifyAddr exampleLinkage exampleConfig
                          \<lparr>IP = [10, 0, 0, 5], Port = 443, Zone = []\<rparr>)"
    by (simp add: example_classify_evil)
  have "fst (checkIfRequestShouldBeProxied exampleLinkage exampleConfig
            (exampleRequest ''evil.test:443'' ''foo'') ''evil.test:443'' [])
     = Returned (\<lparr>reason = ''host matched allowed domain in rule'', role = ''foo'', project = [],
                outboundHost = ''evil.test:443'', resolvedAddr = None, allow = True,
                enforceWouldDeny = False\<rparr>
                 \<lparr>reason := denialMessage exampleLinkage
                               \<lparr>IP = [10, 0, 0, 5], Port = 443, Zone = []\<rparr>
                               (classifyAddr exampleLinkage exampleConfig
                                  \<lparr>IP = [10, 0, 0, 5], Port = 443, Zone = []\<rparr>)
                             @ ''. destination address was denied by rule, see error'',
                   allow := False, enforceWouldDeny := True\<rparr>, None)"
    by (rule checkIfRequestShouldBeProxied_admission
              [where lk = exampleLinkage and config = exampleConfig
                 and req = "exampleRequest ''evil.test:443'' ''foo''"
                 and outHost = "''evil.test:443''" and tr = "[]",
               THEN conjunct2, rule_format])
       (simp add: example_acl_evil example_resolve_evil n del: IsAllowed.simps)
  then have b: "fst (checkIfRequestShouldBeProxied exampleLinkage exampleConfig
            (exampleRequest ''evil.test:443'' ''foo'') ''evil.test:443'' [])
     = Returned (\<lparr>reason = denialMessage exampleLinkage
                               \<lparr>IP = [10, 0, 0, 5], Port = 443, Zone = []\<rparr> ipDenyPrivateRange
                             @ ''. destination address was denied by rule, see error'',
                   role = ''foo'', project = [],
                   outboundHost = ''evil.test:443'', resolvedAddr = None, allow = False,
                   enforceWouldDeny = True\<rparr>, None)"
    by (simp add: example_classify_evil)
  from a b show ?thesis by simp
qed

text \<open>
  C2 as stated ends the reason with the classification name. For the private address
  \<open>10.0.0.5\<close> of \<open>evil.test\<close> the reason ends with the fixed sentence, and differs from
  the denial message followed by \<open>Deny: Private Range\<close>.
\<close>

theorem checkIfRequestShouldBeProxied_reason_counterexample:
  "fst (checkIfRequestShouldBeProxied exampleLinkage exampleConfig
          (exampleRequest ''evil.test:443'' ''foo'') ''evil.test:443'' [])
     = Returned
         (\<lparr>reason = ''The destination address (10.0.0.5) was denied by rule ''
                      @ [CHR 0x27] @ ''Deny: Private Range'' @ [CHR 0x27]
                      @ ''. destination address was denied by rule, see error'',
           role = ''foo'', project = [], outboundHost = ''evil.test:443'',
           resolvedAddr = None, allow = False, enforceWouldDeny = True\<rparr>, None)
   \<and> ''The destination address (10.0.0.5) was denied by rule ''
         @ [CHR 0x27] @ ''Deny: Private Range'' @ [CHR 0x27]
         @ ''. destination address was denied by rule, see error''
       \<noteq> ''The destination address (10.0.0.5) was denied by rule ''
           @ [CHR 0x27] @ ''Deny: Private Range'' @ [CHR 0x27]
           @ ''. '' @ String ipDenyPrivateRange"
  by (simp add: pipeline_defs example_defs Let_def)

section \<open>What the ACL step decides\<close>

lemma example_getRole_foo:
  "getRole exampleConfig (exampleRequest host ''foo'') tr = (Inr ''foo'', tr @ [RoleFromRequestCall])"
  by (simp add: getRole_def example_defs)

lemma checkACLsForRequest_aclCalls_no_role:
  assumes "EgressACL config = Some decide" and "fst (getRole config req tr) = Inl e"
  shows "checkACLsForRequest lk config req outHost tr
           = (Returned \<lparr>reason = ''Client role cannot be determined'', role = [], project = [],
                        outboundHost = outHost, resolvedAddr = None, allow = False,
                        enforceWouldDeny = False\<rparr>,
              snd (getRole config req tr) @ [Incr ''acl.role_not_determined'' []])"
  using assms by (cases "getRole config req tr") (simp add: checkACLsForRequest_def)

lemma getRole_counters_error:
  "fst (getRole config req tr) = Inl e \<Longrightarrow> counters (snd (getRole config req tr)) = counters tr"
  by (auto simp: getRole_def Let_def split: option.splits sum.splits if_splits)

lemma checkACLsForRequest_aclCalls_role:
  assumes "EgressACL config = Some decide" and "getRole config req tr = (Inr r, tr1)"
    and "hostExtractRE lk outHost = Some submatch" and "1 < length submatch"
  shows "aclCalls (snd (checkACLsForRequest lk config req outHost tr))
           = aclCalls tr @ [ACLDecide r (submatch ! 1)]"
proof -
  from getRole_aclCalls [of config req tr] assms(2) have "aclCalls tr1 = aclCalls tr" by simp
  with assms show ?thesis
    by (simp add: checkACLsForRequest_def Let_def
        split: option.splits prod.splits DecisionResult.splits)
qed

text \<open>
  C3. When \<open>EgressACL\<close> is nil, \<open>checkACLsForRequest\<close> returns the decision with
  \<open>allow\<close> true and the reason \<open>Egress ACL is not configured\<close>. For every evaluation of
  the ACL that returns without error (the role was determined, the host was extracted,
  and \<open>Decide\<close> answered with a record and no error), the function returns a decision
  such that: the result Allow gives \<open>allow\<close> true and \<open>enforceWouldDeny\<close> false;
  AllowAndReport gives \<open>allow\<close> true and \<open>enforceWouldDeny\<close> true; Deny gives \<open>allow\<close>
  false and \<open>enforceWouldDeny\<close> true.
\<close>

theorem checkACLsForRequest_result_mapping:
  "(EgressACL config = None \<longrightarrow>
      checkACLsForRequest lk config req outHost tr
        = (Returned \<lparr>reason = ''Egress ACL is not configured'', role = [], project = [],
                     outboundHost = outHost, resolvedAddr = None, allow = True,
                     enforceWouldDeny = False\<rparr>, tr))
   \<and> (\<forall>decide r tr1 submatch aclDec.
        EgressACL config = Some decide \<and> getRole config req tr = (Inr r, tr1)
        \<and> hostExtractRE lk outHost = Some submatch \<and> 1 < length submatch
        \<and> decide r (submatch ! 1) = (aclDec, None) \<longrightarrow>
          (\<exists>d. fst (checkACLsForRequest lk config req outHost tr) = Returned d
             \<and> (Result aclDec = Allow \<longrightarrow> allow d \<and> \<not> enforceWouldDeny d)
             \<and> (Result aclDec = AllowAndReport \<longrightarrow> allow d \<and> enforceWouldDeny d)
             \<and> (Result aclDec = Deny \<longrightarrow> \<not> allow d \<and> enforceWouldDeny d)))"
  by (auto simp: checkACLsForRequest_def Let_def split: DecisionResult.splits)

theorem checkACLsForRequest_result_mapping_witness:
  "checkACLsForRequest exampleLinkage (exampleConfig\<lparr>EgressACL := None\<rparr>)
       (exampleRequest ''example.com:443'' ''foo'') ''example.com:443'' []
     = (Returned \<lparr>reason = ''Egress ACL is not configured'', role = [], project = [],
                  outboundHost = ''example.com:443'', resolvedAddr = None, allow = True,
                  enforceWouldDeny = False\<rparr>, [])
   \<and> (\<exists>d. fst (checkACLsForRequest exampleLinkage exampleConfig
                 (exampleRequest ''shadow.test:443'' ''foo'') ''shadow.test:443'' []) = Returned d
          \<and> allow d \<and> enforceWouldDeny d)
   \<and> (\<exists>d. fst (checkACLsForRequest exampleLinkage exampleConfig
                 (exampleRequest ''blocked.test:443'' ''foo'') ''blocked.test:443'' []) = Returned d
          \<and> \<not> allow d \<and> enforceWouldDeny d)
   \<and> (\<exists>d. fst (checkACLsForRequest exampleLinkage exampleConfig
                 (exampleRequest ''example.com:443'' ''foo'') ''example.com:443'' []) = Returned d
          \<and> allow d \<and> \<not> enforceWouldDeny d)"
proof -
  have a: "checkACLsForRequest exampleLinkage (exampleConfig\<lparr>EgressACL := None\<rparr>)
       (exampleRequest ''example.com:443'' ''foo'') ''example.com:443'' []
     = (Returned \<lparr>reason = ''Egress ACL is not configured'', role = [], project = [],
                  outboundHost = ''example.com:443'', resolvedAddr = None, allow = True,
                  enforceWouldDeny = False\<rparr>, [])"
    using checkACLsForRequest_result_mapping
            [where config = "exampleConfig\<lparr>EgressACL := None\<rparr>" and lk = exampleLinkage
               and req = "exampleRequest ''example.com:443'' ''foo''"
               and outHost = "''example.com:443''" and tr = "[]"]
    by simp
  have e: "EgressACL exampleConfig = Some exampleDecide"
    by (simp add: exampleConfig_def)
  have h1: "hostExtractRE exampleLinkage ''shadow.test:443''
              = Some [''shadow.test:443'', ''shadow.test'', '':443'']"
    by (simp add: example_defs)
  have h2: "hostExtractRE exampleLinkage ''blocked.test:443''
              = Some [''blocked.test:443'', ''blocked.test'', '':443'']"
    by (simp add: example_defs)
  have h3: "hostExtractRE exampleLinkage ''example.com:443''
              = Some [''example.com:443'', ''example.com'', '':443'']"
    by (simp add: example_defs)
  have d1: "exampleDecide ''foo'' ''shadow.test''
              = (\<lparr>Reason = ''rule is in report mode'', Default = False, Result = AllowAndReport,
                  Project = ''security''\<rparr>, None)"
    by (simp add: exampleDecide_def)
  have d2: "exampleDecide ''foo'' ''blocked.test''
              = (\<lparr>Reason = ''host is blocked'', Default = False, Result = Deny,
                  Project = ''security''\<rparr>, None)"
    by (simp add: exampleDecide_def)
  have d3: "exampleDecide ''foo'' ''example.com''
              = (\<lparr>Reason = ''host matched allowed domain in rule'', Default = False,
                  Result = Allow, Project = ''security''\<rparr>, None)"
    by (simp add: exampleDecide_def)
  have b: "\<exists>d. fst (checkACLsForRequest exampleLinkage exampleConfig
                 (exampleRequest ''shadow.test:443'' ''foo'') ''shadow.test:443'' []) = Returned d
          \<and> allow d \<and> enforceWouldDeny d"
    using checkACLsForRequest_result_mapping
            [where config = exampleConfig and lk = exampleLinkage
               and req = "exampleRequest ''shadow.test:443'' ''foo''"
               and outHost = "''shadow.test:443''" and tr = "[]",
             THEN conjunct2, rule_format,
             of exampleDecide "''foo''" "[RoleFromRequestCall]"
                "[''shadow.test:443'', ''shadow.test'', '':443'']"
                "\<lparr>Reason = ''rule is in report mode'', Default = False,
                  Result = AllowAndReport, Project = ''security''\<rparr>"]
          e h1 d1 example_getRole_foo [of "''shadow.test:443''" "[]"]
    by simp
  have c: "\<exists>d. fst (checkACLsForRequest exampleLinkage exampleConfig
                 (exampleRequest ''blocked.test:443'' ''foo'') ''blocked.test:443'' []) = Returned d
          \<and> \<not> allow d \<and> enforceWouldDeny d"
    using checkACLsForRequest_result_mapping
            [where config = exampleConfig and lk = exampleLinkage
               and req = "exampleRequest ''blocked.test:443'' ''foo''"
               and outHost = "''blocked.test:443''" and tr = "[]",
             THEN conjunct2, rule_format,
             of exampleDecide "''foo''" "[RoleFromRequestCall]"
                "[''blocked.test:443'', ''blocked.test'', '':443'']"
                "\<lparr>Reason = ''host is blocked'', Default = False,
                  Result = Deny, Project = ''security''\<rparr>"]
          e h2 d2 example_getRole_foo [of "''blocked.test:443''" "[]"]
    by simp
  have d: "\<exists>d. fst (checkACLsForRequest exampleLinkage exampleConfig
                 (exampleRequest ''example.com:443'' ''foo'') ''example.com:443'' []) = Returned d
          \<and> allow d \<and> \<not> enforceWouldDeny d"
    using checkACLsForRequest_result_mapping
            [where config = exampleConfig and lk = exampleLinkage
               and req = "exampleRequest ''example.com:443'' ''foo''"
               and outHost = "''example.com:443''" and tr = "[]",
             THEN conjunct2, rule_format,
             of exampleDecide "''foo''" "[RoleFromRequestCall]"
                "[''example.com:443'', ''example.com'', '':443'']"
                "\<lparr>Reason = ''host matched allowed domain in rule'', Default = False,
                  Result = Allow, Project = ''security''\<rparr>"]
          e h3 d3 example_getRole_foo [of "''example.com:443''" "[]"]
    by simp
  from a b c d show ?thesis by blast
qed

text \<open>
  C4, as amended. When the role extractor answers with a missing-role error (or
  \<open>RoleFromRequest\<close> is nil) and \<open>AllowMissingRole\<close> is true, \<open>getRole\<close> returns the
  empty role and no error, and, when \<open>EgressACL\<close> is configured and the host is
  extracted, the ACL is consulted once, with the empty role. When \<open>EgressACL\<close> is
  configured and the extractor's error is not a missing-role error or \<open>AllowMissingRole\<close>
  is false, the decision has \<open>allow\<close> false and the reason \<open>Client role cannot be
  determined\<close>, the one counter incremented is \<open>acl.role_not_determined\<close>, and the ACL
  is not consulted. When \<open>EgressACL\<close> is nil, whatever the role extractor and
  \<open>AllowMissingRole\<close> are, the role is not extracted at all: the decision has \<open>allow\<close>
  true and the reason \<open>Egress ACL is not configured\<close>, and the trace is left as it was (no
  call of the extractor, no counter).
\<close>

theorem missing_role_handling:
  "((RoleFromRequest config = None
      \<or> (\<exists>extract e. RoleFromRequest config = Some extract \<and> extract req = Inl e
                       \<and> IsMissingRoleError e))
     \<and> AllowMissingRole config \<longrightarrow>
       fst (getRole config req tr) = Inr []
       \<and> (\<forall>decide submatch.
            EgressACL config = Some decide \<and> hostExtractRE lk outHost = Some submatch
            \<and> 1 < length submatch \<longrightarrow>
              aclCalls (snd (checkACLsForRequest lk config req outHost tr))
                = aclCalls tr @ [ACLDecide [] (submatch ! 1)]))
   \<and> (\<forall>decide e.
        EgressACL config = Some decide
        \<and> (RoleFromRequest config = None \<and> e = MissingRoleError ''RoleFromRequest is not configured''
            \<or> (\<exists>extract. RoleFromRequest config = Some extract \<and> extract req = Inl e))
        \<and> (\<not> AllowMissingRole config \<or> \<not> IsMissingRoleError e) \<longrightarrow>
          fst (checkACLsForRequest lk config req outHost tr)
            = Returned \<lparr>reason = ''Client role cannot be determined'', role = [], project = [],
                        outboundHost = outHost, resolvedAddr = None, allow = False,
                        enforceWouldDeny = False\<rparr>
          \<and> counters (snd (checkACLsForRequest lk config req outHost tr))
              = counters tr @ [''acl.role_not_determined'']
          \<and> aclCalls (snd (checkACLsForRequest lk config req outHost tr)) = aclCalls tr)
   \<and> (EgressACL config = None \<longrightarrow>
        checkACLsForRequest lk config req outHost tr
          = (Returned \<lparr>reason = ''Egress ACL is not configured'', role = [], project = [],
                       outboundHost = outHost, resolvedAddr = None, allow = True,
                       enforceWouldDeny = False\<rparr>, tr))"
proof (intro conjI allI impI)
  assume a: "(RoleFromRequest config = None
      \<or> (\<exists>extract e. RoleFromRequest config = Some extract \<and> extract req = Inl e
                       \<and> IsMissingRoleError e))
     \<and> AllowMissingRole config"
  then show g: "fst (getRole config req tr) = Inr []"
    by (auto simp: getRole_def MissingRoleError_def)
  fix decide submatch
  assume b: "EgressACL config = Some decide \<and> hostExtractRE lk outHost = Some submatch
            \<and> 1 < length submatch"
  obtain tr1 where "getRole config req tr = (Inr [], tr1)"
    using g by (cases "getRole config req tr") simp
  with b show "aclCalls (snd (checkACLsForRequest lk config req outHost tr))
                = aclCalls tr @ [ACLDecide [] (submatch ! 1)]"
    by (simp add: checkACLsForRequest_aclCalls_role)
next
  fix decide e
  assume a: "EgressACL config = Some decide
        \<and> (RoleFromRequest config = None \<and> e = MissingRoleError ''RoleFromRequest is not configured''
            \<or> (\<exists>extract. RoleFromRequest config = Some extract \<and> extract req = Inl e))
        \<and> (\<not> AllowMissingRole config \<or> \<not> IsMissingRoleError e)"
  then have g: "fst (getRole config req tr) = Inl e"
    by (auto simp: getRole_def MissingRoleError_def)
  from a g have c: "checkACLsForRequest lk config req outHost tr
           = (Returned \<lparr>reason = ''Client role cannot be determined'', role = [], project = [],
                        outboundHost = outHost, resolvedAddr = None, allow = False,
                        enforceWouldDeny = False\<rparr>,
              snd (getRole config req tr) @ [Incr ''acl.role_not_determined'' []])"
    by (simp add: checkACLsForRequest_aclCalls_no_role)
  then show "fst (checkACLsForRequest lk config req outHost tr)
            = Returned \<lparr>reason = ''Client role cannot be determined'', role = [], project = [],
                        outboundHost = outHost, resolvedAddr = None, allow = False,
                        enforceWouldDeny = False\<rparr>"
    by simp
  from c g show "counters (snd (checkACLsForRequest lk config req outHost tr))
              = counters tr @ [''acl.role_not_determined'']"
    by (simp add: getRole_counters_error)
  from c show "aclCalls (snd (checkACLsForRequest lk config req outHost tr)) = aclCalls tr"
    by (simp add: getRole_aclCalls)
next
  assume "EgressACL config = None"
  then show "checkACLsForRequest lk config req outHost tr
          = (Returned \<lparr>reason = ''Egress ACL is not configured'', role = [], project = [],
                       outboundHost = outHost, resolvedAddr = None, allow = True,
                       enforceWouldDeny = False\<rparr>, tr)"
    by (simp add: checkACLsForRequest_def)
qed

theorem missing_role_handling_witness:
  "fst (getRole (exampleConfig\<lparr>AllowMissingRole := True\<rparr>)
          (exampleRequest ''example.com:443'' []) []) = Inr []
   \<and> aclCalls (snd (checkACLsForRequest exampleLinkage (exampleConfig\<lparr>AllowMissingRole := True\<rparr>)
                      (exampleRequest ''example.com:443'' []) ''example.com:443'' []))
       = [ACLDecide [] ''example.com'']
   \<and> fst (checkACLsForRequest exampleLinkage exampleConfig
            (exampleRequest ''example.com:443'' []) ''example.com:443'' [])
       = Returned \<lparr>reason = ''Client role cannot be determined'', role = [], project = [],
                   outboundHost = ''example.com:443'', resolvedAddr = None, allow = False,
                   enforceWouldDeny = False\<rparr>
   \<and> counters (snd (checkACLsForRequest exampleLinkage exampleConfig
                      (exampleRequest ''example.com:443'' []) ''example.com:443'' []))
       = [''acl.role_not_determined'']
   \<and> aclCalls (snd (checkACLsForRequest exampleLinkage exampleConfig
                      (exampleRequest ''example.com:443'' []) ''example.com:443'' [])) = []
   \<and> checkACLsForRequest exampleLinkage (exampleConfig\<lparr>EgressACL := None\<rparr>)
         (exampleRequest ''example.com:443'' []) ''example.com:443'' []
       = (Returned \<lparr>reason = ''Egress ACL is not configured'', role = [], project = [],
                    outboundHost = ''example.com:443'', resolvedAddr = None, allow = True,
                    enforceWouldDeny = False\<rparr>, [])"
proof -
  have x: "RoleFromRequest (exampleConfig\<lparr>AllowMissingRole := True\<rparr>) = Some exampleRoleFromRequest"
    "RoleFromRequest exampleConfig = Some exampleRoleFromRequest"
    "exampleRoleFromRequest (exampleRequest ''example.com:443'' [])
       = Inl (missingRoleError ''no role header'')"
    "AllowMissingRole (exampleConfig\<lparr>AllowMissingRole := True\<rparr>)"
    "\<not> AllowMissingRole exampleConfig"
    "EgressACL (exampleConfig\<lparr>AllowMissingRole := True\<rparr>) = Some exampleDecide"
    "EgressACL exampleConfig = Some exampleDecide"
    "hostExtractRE exampleLinkage ''example.com:443''
       = Some [''example.com:443'', ''example.com'', '':443'']"
    by (simp_all add: example_defs)
  note T1 = missing_role_handling
      [where config = "exampleConfig\<lparr>AllowMissingRole := True\<rparr>" and lk = exampleLinkage
         and req = "exampleRequest ''example.com:443'' []"
         and outHost = "''example.com:443''" and tr = "[]", THEN conjunct1, rule_format]
  have h: "(RoleFromRequest (exampleConfig\<lparr>AllowMissingRole := True\<rparr>) = None
      \<or> (\<exists>extract e. RoleFromRequest (exampleConfig\<lparr>AllowMissingRole := True\<rparr>) = Some extract
            \<and> extract (exampleRequest ''example.com:443'' []) = Inl e
            \<and> IsMissingRoleError e))
     \<and> AllowMissingRole (exampleConfig\<lparr>AllowMissingRole := True\<rparr>)"
    using x by simp
  from T1 [OF h] have a: "fst (getRole (exampleConfig\<lparr>AllowMissingRole := True\<rparr>)
          (exampleRequest ''example.com:443'' []) []) = Inr []"
    by simp
  from T1 [OF h] x have b: "aclCalls (snd (checkACLsForRequest exampleLinkage
                      (exampleConfig\<lparr>AllowMissingRole := True\<rparr>)
                      (exampleRequest ''example.com:443'' []) ''example.com:443'' []))
       = [ACLDecide [] ''example.com'']"
    by simp
  note T2 = missing_role_handling
      [where config = exampleConfig and lk = exampleLinkage
         and req = "exampleRequest ''example.com:443'' []"
         and outHost = "''example.com:443''" and tr = "[]",
       THEN conjunct2, THEN conjunct1, rule_format,
       of exampleDecide "missingRoleError ''no role header''"]
  have h2: "EgressACL exampleConfig = Some exampleDecide
        \<and> (RoleFromRequest exampleConfig = None
             \<and> missingRoleError ''no role header''
                 = MissingRoleError ''RoleFromRequest is not configured''
            \<or> (\<exists>extract. RoleFromRequest exampleConfig = Some extract
                  \<and> extract (exampleRequest ''example.com:443'' [])
                      = Inl (missingRoleError ''no role header'')))
        \<and> (\<not> AllowMissingRole exampleConfig \<or> \<not> IsMissingRoleError (missingRoleError ''no role header''))"
    using x by simp
  from T2 [OF h2] have c: "fst (checkACLsForRequest exampleLinkage exampleConfig
            (exampleRequest ''example.com:443'' []) ''example.com:443'' [])
       = Returned \<lparr>reason = ''Client role cannot be determined'', role = [], project = [],
                   outboundHost = ''example.com:443'', resolvedAddr = None, allow = False,
                   enforceWouldDeny = False\<rparr>
   \<and> counters (snd (checkACLsForRequest exampleLinkage exampleConfig
                      (exampleRequest ''example.com:443'' []) ''example.com:443'' []))
       = [''acl.role_not_determined'']
   \<and> aclCalls (snd (checkACLsForRequest exampleLinkage exampleConfig
                      (exampleRequest ''example.com:443'' []) ''example.com:443'' [])) = []"
    by simp
  have n: "EgressACL (exampleConfig\<lparr>EgressACL := None\<rparr>) = None" by simp
  note d = missing_role_handling
      [where config = "exampleConfig\<lparr>EgressACL := None\<rparr>" and lk = exampleLinkage
         and req = "exampleRequest ''example.com:443'' []"
         and outHost = "''example.com:443''" and tr = "[]",
       THEN conjunct2, THEN conjunct2, rule_format, OF n]
  from a b c d show ?thesis by simp
qed

text \<open>
  C4 as stated holds for every request. With \<open>EgressACL\<close> nil, \<open>RoleFromRequest\<close> nil
  and \<open>AllowMissingRole\<close> false, role extraction fails with the missing-role error, yet
  \<open>checkACLsForRequest\<close> returns before it extracts the role: the decision has \<open>allow\<close>
  true and the reason \<open>Egress ACL is not configured\<close>, and no counter is incremented.
\<close>

theorem missing_role_without_acl_counterexample:
  "\<not> AllowMissingRole (exampleConfig\<lparr>EgressACL := None, RoleFromRequest := None\<rparr>)
   \<and> getRole (exampleConfig\<lparr>EgressACL := None, RoleFromRequest := None\<rparr>)
         (exampleRequest ''example.com:443'' []) []
       = (Inl (missingRoleError ''RoleFromRequest is not configured''),
          [LogEntry ''error'' ''Unable to get role for request''])
   \<and> checkACLsForRequest exampleLinkage (exampleConfig\<lparr>EgressACL := None, RoleFromRequest := None\<rparr>)
         (exampleRequest ''example.com:443'' []) ''example.com:443'' []
       = (Returned \<lparr>reason = ''Egress ACL is not configured'', role = [], project = [],
                    outboundHost = ''example.com:443'', resolvedAddr = None, allow = True,
                    enforceWouldDeny = False\<rparr>, [])"
  by (simp add: checkACLsForRequest_def getRole_def example_defs)

text \<open>
  C10. \<open>checkACLsForRequest\<close> panics exactly when \<open>EgressACL\<close> is non-nil, the role was
  determined and the host-extraction pattern yields no element 1 (no match, or a match
  without a submatch). In particular, with \<open>EgressACL\<close> non-nil and the role determined,
  for every \<open>outboundHost\<close> that the pattern does not match the function panics with an
  index out of range instead of returning a decision, and the ACL is not consulted.
\<close>

theorem checkACLsForRequest_panic_iff:
  "((\<exists>p. fst (checkACLsForRequest lk config req outHost tr) = Panicked p)
      \<longleftrightarrow> (EgressACL config \<noteq> None \<and> (\<exists>r. fst (getRole config req tr) = Inr r)
           \<and> (case hostExtractRE lk outHost of
                 None \<Rightarrow> True
               | Some submatch \<Rightarrow> length submatch \<le> 1)))
   \<and> (\<forall>decide r.
        EgressACL config = Some decide \<and> fst (getRole config req tr) = Inr r
        \<and> hostExtractRE lk outHost = None \<longrightarrow>
          fst (checkACLsForRequest lk config req outHost tr)
            = Panicked ''index out of range [1] with length 0''
          \<and> aclCalls (snd (checkACLsForRequest lk config req outHost tr)) = aclCalls tr)"
proof (intro conjI allI impI)
  show "(\<exists>p. fst (checkACLsForRequest lk config req outHost tr) = Panicked p)
      \<longleftrightarrow> (EgressACL config \<noteq> None \<and> (\<exists>r. fst (getRole config req tr) = Inr r)
           \<and> (case hostExtractRE lk outHost of
                 None \<Rightarrow> True
               | Some submatch \<Rightarrow> length submatch \<le> 1))"
    by (cases "getRole config req tr")
       (auto simp: checkACLsForRequest_def Let_def
          split: option.splits sum.splits prod.splits DecisionResult.splits)
next
  fix decide r
  assume a: "EgressACL config = Some decide \<and> fst (getRole config req tr) = Inr r
        \<and> hostExtractRE lk outHost = None"
  then obtain tr1 where g: "getRole config req tr = (Inr r, tr1)"
    by (cases "getRole config req tr") simp
  with a show "fst (checkACLsForRequest lk config req outHost tr)
            = Panicked ''index out of range [1] with length 0''"
    by (simp add: checkACLsForRequest_def)
  from getRole_aclCalls [of config req tr] g have "aclCalls tr1 = aclCalls tr" by simp
  with a g show "aclCalls (snd (checkACLsForRequest lk config req outHost tr)) = aclCalls tr"
    by (simp add: checkACLsForRequest_def)
qed

theorem checkACLsForRequest_panic_iff_witness:
  "fst (checkACLsForRequest exampleLinkage exampleConfig
          (exampleRequest ''[[::1]]:80'' ''foo'') ''[[::1]]:80'' [])
     = Panicked ''index out of range [1] with length 0''
   \<and> aclCalls (snd (checkACLsForRequest exampleLinkage exampleConfig
                      (exampleRequest ''[[::1]]:80'' ''foo'') ''[[::1]]:80'' [])) = []"
proof -
  have "EgressACL exampleConfig = Some exampleDecide
        \<and> fst (getRole exampleConfig (exampleRequest ''[[::1]]:80'' ''foo'') []) = Inr ''foo''
        \<and> hostExtractRE exampleLinkage ''[[::1]]:80'' = None"
    by (simp add: getRole_def example_defs)
  from checkACLsForRequest_panic_iff
         [where config = exampleConfig and lk = exampleLinkage
            and req = "exampleRequest ''[[::1]]:80'' ''foo''" and outHost = "''[[::1]]:80''"
            and tr = "[]", THEN conjunct2, rule_format, OF this]
  show ?thesis by simp
qed

section \<open>The shape of a rejection response\<close>

lemma firstLine_no_newline: "CHR 0x0A \<notin> set s \<Longrightarrow> firstLine (s @ [CHR 0x0A]) = s"
  by (induction s) (auto simp: firstLine_def)

lemma firstLine_has_no_newline: "CHR 0x0A \<notin> set (firstLine s)"
  by (auto simp: firstLine_def dest: set_takeWhileD)

text \<open>
  C8, as amended. Every response \<open>rejectResponse\<close> synthesizes has status 407 with the
  status text \<open>Request Rejected by Proxy\<close>, the content type \<open>text/plain\<close> and the
  protocol version of the request. Its message is \<open>Egress proxying is denied to host
  '<host>': <reason>.\<close> for a denial error and \<open>An unexpected error occurred.\<close> for
  every other error, followed, when \<open>AdditionalErrorMessageOnDeny\<close> is not empty, by an
  empty line, that text and a newline. The body is the message and a newline, and the
  header \<open>X-Smokescreen-Error\<close> is the whole message: it is the first line of the body
  when \<open>AdditionalErrorMessageOnDeny\<close> is empty and the message holds no newline, and it
  is not the first line of the body when \<open>AdditionalErrorMessageOnDeny\<close> is set.
\<close>

theorem rejectResponse_shape:
  "(let msg0 = (if isDenyError err then
                  ''Egress proxying is denied to host '' @ [CHR 0x27] @ Host req @ [CHR 0x27]
                    @ '': '' @ Error err @ ''.''
                else ''An unexpected error occurred.'');
        msg = (if AdditionalErrorMessageOnDeny config = [] then msg0
               else msg0 @ [CHR 0x0A, CHR 0x0A] @ AdditionalErrorMessageOnDeny config @ [CHR 0x0A]);
        resp = fst (rejectResponse lk req config err tr)
    in StatusCode resp = 407
       \<and> Status resp = ''Request Rejected by Proxy''
       \<and> Header resp ''Content-Type'' = Some [''text/plain'']
       \<and> ProtoMajor resp = ReqProtoMajor req
       \<and> ProtoMinor resp = ReqProtoMinor req
       \<and> Body resp = msg @ [CHR 0x0A]
       \<and> Header resp ''X-Smokescreen-Error'' = Some [msg]
       \<and> (AdditionalErrorMessageOnDeny config = [] \<and> CHR 0x0A \<notin> set msg0 \<longrightarrow>
            Header resp ''X-Smokescreen-Error'' = Some [firstLine (Body resp)])
       \<and> (AdditionalErrorMessageOnDeny config \<noteq> [] \<longrightarrow>
            Header resp ''X-Smokescreen-Error'' \<noteq> Some [firstLine (Body resp)]))"
proof -
  define msg0 where "msg0 = (if isDenyError err then
                  ''Egress proxying is denied to host '' @ [CHR 0x27] @ Host req @ [CHR 0x27]
                    @ '': '' @ Error err @ ''.''
                else ''An unexpected error occurred.'')"
  define msg where "msg = (if AdditionalErrorMessageOnDeny config = [] then msg0
               else msg0 @ [CHR 0x0A, CHR 0x0A] @ AdditionalErrorMessageOnDeny config @ [CHR 0x0A])"
  define resp where "resp = fst (rejectResponse lk req config err tr)"
  have r: "resp = \<lparr>StatusCode = 407, Status = ''Request Rejected by Proxy'',
                   ProtoMajor = ReqProtoMajor req, ProtoMinor = ReqProtoMinor req,
                   Header = [''Content-Type'' \<mapsto> [''text/plain''],
                             ''X-Smokescreen-Error'' \<mapsto> [msg]],
                   Body = msg @ [CHR 0x0A],
                   ContentLength = int (length (msg @ [CHR 0x0A]))\<rparr>"
    by (simp add: resp_def msg_def msg0_def rejectResponse_def NewResponse_def denyMsgTmpl_def
        ContentTypeText_def StatusProxyAuthRequired_def HeaderAdd_def HeaderSet_def
        errorHeader_def Let_def)
  have a: "AdditionalErrorMessageOnDeny config = [] \<and> CHR 0x0A \<notin> set msg0 \<longrightarrow>
            Header resp ''X-Smokescreen-Error'' = Some [firstLine (Body resp)]"
    by (simp add: r msg_def firstLine_no_newline)
  have "AdditionalErrorMessageOnDeny config \<noteq> [] \<longrightarrow> msg \<noteq> firstLine (Body resp)"
  proof
    assume "AdditionalErrorMessageOnDeny config \<noteq> []"
    then have "CHR 0x0A \<in> set msg" by (simp add: msg_def)
    with firstLine_has_no_newline [of "Body resp"] show "msg \<noteq> firstLine (Body resp)"
      by auto
  qed
  then have b: "AdditionalErrorMessageOnDeny config \<noteq> [] \<longrightarrow>
            Header resp ''X-Smokescreen-Error'' \<noteq> Some [firstLine (Body resp)]"
    by (simp add: r)
  have "StatusCode resp = 407
       \<and> Status resp = ''Request Rejected by Proxy''
       \<and> Header resp ''Content-Type'' = Some [''text/plain'']
       \<and> ProtoMajor resp = ReqProtoMajor req
       \<and> ProtoMinor resp = ReqProtoMinor req
       \<and> Body resp = msg @ [CHR 0x0A]
       \<and> Header resp ''X-Smokescreen-Error'' = Some [msg]"
    by (simp add: r)
  with a b show ?thesis
    unfolding Let_def msg0_def [symmetric] msg_def [symmetric] resp_def [symmetric] by blast
qed

theorem rejectResponse_shape_witness:
  "Header (fst (rejectResponse exampleLinkage (exampleRequest ''evil.test:443'' ''foo'')
                  exampleConfig (denyError ''no'') [])) ''X-Smokescreen-Error''
     = Some [''Egress proxying is denied to host '' @ [CHR 0x27] @ ''evil.test:443'' @ [CHR 0x27]
               @ '': no.'']
   \<and> Header (fst (rejectResponse exampleLinkage (exampleRequest ''evil.test:443'' ''foo'')
                  exampleConfig (denyError ''no'') [])) ''X-Smokescreen-Error''
     = Some [firstLine (Body (fst (rejectResponse exampleLinkage
                (exampleRequest ''evil.test:443'' ''foo'') exampleConfig (denyError ''no'') [])))]
   \<and> Body (fst (rejectResponse exampleLinkage (exampleRequest ''evil.test:443'' ''foo'')
                  exampleConfig (otherError ''no such host'') []))
     = ''An unexpected error occurred.'' @ [CHR 0x0A]"
proof -
  have c: "AdditionalErrorMessageOnDeny exampleConfig = []"
    "Host (exampleRequest ''evil.test:443'' ''foo'') = ''evil.test:443''"
    by (simp_all add: example_defs)
  from rejectResponse_shape [where lk = exampleLinkage and config = exampleConfig
         and req = "exampleRequest ''evil.test:443'' ''foo''" and err = "denyError ''no''"
         and tr = "[]"] c
  have a: "Header (fst (rejectResponse exampleLinkage (exampleRequest ''evil.test:443'' ''foo'')
                  exampleConfig (denyError ''no'') [])) ''X-Smokescreen-Error''
     = Some [''Egress proxying is denied to host '' @ [CHR 0x27] @ ''evil.test:443'' @ [CHR 0x27]
               @ '': no.'']
   \<and> Header (fst (rejectResponse exampleLinkage (exampleRequest ''evil.test:443'' ''foo'')
                  exampleConfig (denyError ''no'') [])) ''X-Smokescreen-Error''
     = Some [firstLine (Body (fst (rejectResponse exampleLinkage
                (exampleRequest ''evil.test:443'' ''foo'') exampleConfig (denyError ''no'') [])))]"
    by (simp add: Let_def firstLine_def)
  from rejectResponse_shape [where lk = exampleLinkage and config = exampleConfig
         and req = "exampleRequest ''evil.test:443'' ''foo''"
         and err = "otherError ''no such host''" and tr = "[]"] c
  have b: "Body (fst (rejectResponse exampleLinkage (exampleRequest ''evil.test:443'' ''foo'')
                  exampleConfig (otherError ''no such host'') []))
     = ''An unexpected error occurred.'' @ [CHR 0x0A]"
    by (simp add: Let_def)
  from a b show ?thesis by blast
qed

text \<open>
  C8 as stated makes the header equal to the first line of the body. With
  \<open>AdditionalErrorMessageOnDeny\<close> set to \<open>Contact security\<close> the header holds the
  denial sentence, the empty line and the additional text, and the first line of the body
  is the denial sentence alone.
\<close>

theorem rejectResponse_header_counterexample:
  "Header (fst (rejectResponse exampleLinkage (exampleRequest ''evil.test:443'' ''foo'')
                  (exampleConfig\<lparr>AdditionalErrorMessageOnDeny := ''Contact security''\<rparr>)
                  (denyError ''no'') [])) ''X-Smokescreen-Error''
     = Some [''Egress proxying is denied to host '' @ [CHR 0x27] @ ''evil.test:443'' @ [CHR 0x27]
               @ '': no.'' @ [CHR 0x0A, CHR 0x0A] @ ''Contact security'' @ [CHR 0x0A]]
   \<and> firstLine (Body (fst (rejectResponse exampleLinkage (exampleRequest ''evil.test:443'' ''foo'')
                  (exampleConfig\<lparr>AdditionalErrorMessageOnDeny := ''Contact security''\<rparr>)
                  (denyError ''no'') [])))
     = ''Egress proxying is denied to host '' @ [CHR 0x27] @ ''evil.test:443'' @ [CHR 0x27]
               @ '': no.''
   \<and> ''Egress proxying is denied to host '' @ [CHR 0x27] @ ''evil.test:443'' @ [CHR 0x27]
               @ '': no.'' @ [CHR 0x0A, CHR 0x0A] @ ''Contact security'' @ [CHR 0x0A]
       \<noteq> ''Egress proxying is denied to host '' @ [CHR 0x27] @ ''evil.test:443'' @ [CHR 0x27]
               @ '': no.''"
  by (simp add: rejectResponse_def NewResponse_def denyMsgTmpl_def firstLine_def
      ContentTypeText_def StatusProxyAuthRequired_def HeaderAdd_def HeaderSet_def
      errorHeader_def example_defs)

section \<open>Port synthesis\<close>

lemma LastIndex_absent: "c \<notin> set s \<Longrightarrow> LastIndex s [c] = - 1"
proof -
  assume a: "c \<notin> set s"
  have "filter (\<lambda>i. take (length [c]) (drop i s) = [c]) (rev [0 ..< Suc (length s)]) = []"
  proof (rule ccontr)
    assume "filter (\<lambda>i. take (length [c]) (drop i s) = [c]) (rev [0 ..< Suc (length s)]) \<noteq> []"
    then obtain i where "take (length [c]) (drop i s) = [c]"
      by (auto simp: filter_empty_conv)
    then have "c \<in> set (take (length [c]) (drop i s))" by simp
    then have "c \<in> set s" by (meson in_set_dropD in_set_takeD)
    with a show False by simp
  qed
  then show ?thesis by (simp add: LastIndex_def)
qed

lemma remoteHostOf_plain_host:
  assumes "CHR '':'' \<notin> set (Host req)" and "CHR '']'' \<notin> set (Host req)"
  shows "remoteHostOf req
           = Host req @ '':'' @ (if URLScheme req = ''http'' then ''80''
                                 else if URLScheme req = ''https'' then ''443'' else ''0'')"
  using assms by (simp add: remoteHostOf_def JoinHostPort_def LastIndex_absent Let_def)

text \<open>
  C9. The claim has a bracketed IPv6 literal without a port, such as \<open>[::1]\<close>, detected
  as portless and joined correctly. The code detects it as portless and then hands the
  host, brackets included, to \<open>net.JoinHostPort\<close>, which brackets every host that holds
  a colon: for the host \<open>[::1]\<close> and the scheme \<open>http\<close> the synthesized address is
  \<open>[[::1]]:80\<close>, which \<open>net.SplitHostPort\<close> refuses, where \<open>[::1]:80\<close> is the address
  that parses. (For a host without colon and bracket the port is appended as the claim
  says, \<open>remoteHostOf_plain_host\<close>.)
\<close>

theorem remoteHostOf_bracketed_ipv6:
  "LastIndex ''[::1]'' '':'' = 2 \<and> LastIndex ''[::1]'' '']'' = 4
   \<and> remoteHostOf (req\<lparr>Host := ''[::1]'', URLScheme := ''http''\<rparr>) = ''[[::1]]:80''
   \<and> go_SplitHostPort ''[[::1]]:80''
       = Inl (otherError ''address [[::1]]:80: missing port in address'')
   \<and> go_SplitHostPort ''[::1]:80'' = Inr (''::1'', ''80'')"
  by (simp add: remoteHostOf_def JoinHostPort_def go_SplitHostPort_def LastIndex_def
      addrErr_def Let_def)

section \<open>Denied requests never reach the dialer\<close>



































end
